theory Spec2Isabelle
  imports Main
begin

section \<open>Storage layer: SQL values and the request context\<close>

text \<open>
  The SQL files of the repository (the schema with its stored procedures and triggers, and the
  row-level-security script) are embedded first. A nullable SQL value is an \<open>option\<close>
  (\<open>None\<close> is NULL). A value of type \<open>timestamptz\<close> is an instant, an integer count of
  microseconds.
\<close>

type_synonym timestamptz = int

text \<open>
  What a statement reads from its session: \<open>NOW()\<close>, which PostgreSQL fixes at the start of
  the transaction, and the \<open>TimeZone\<close> setting, as its offset east of UTC in microseconds.
\<close>

record sql_session =
  transaction_start :: timestamptz
  time_zone_offset :: int

text \<open>
  \<open>TIMEZONE('utc'::text, NOW())\<close> stored in a \<open>TIMESTAMPTZ\<close> column. \<open>TIMEZONE('utc', ...)\<close>
  yields the UTC wall-clock reading of \<open>NOW()\<close> as a timestamp without zone; the column
  takes it back as a local time of the session's zone. The stored instant is therefore
  \<open>NOW()\<close> less the session's offset, and \<open>NOW()\<close> itself only in a UTC session.
\<close>

definition timezone_utc_now :: "sql_session \<Rightarrow> timestamptz" where
  "timezone_utc_now ss = transaction_start ss - time_zone_offset ss"

text \<open>
  A value of type \<open>UUID\<close> is 128 bits, kept as its 32 hexadecimal digits. Its text forms are
  those of PostgreSQL: the output is lower case in groups of 8-4-4-4-12; the input reads 16
  bytes of two hexadecimal digits of either case, with an optional hyphen after every
  second byte and optional braces around the whole. Two texts of one value are equal as
  UUIDs and different as strings.
\<close>

datatype uuid = Uuid "nat list"

definition hex_value :: "char \<Rightarrow> nat option" where
  "hex_value c =
     map_of [(CHR ''0'', 0), (CHR ''1'', 1), (CHR ''2'', 2), (CHR ''3'', 3), (CHR ''4'', 4),
             (CHR ''5'', 5), (CHR ''6'', 6), (CHR ''7'', 7), (CHR ''8'', 8), (CHR ''9'', 9),
             (CHR ''a'', 10), (CHR ''b'', 11), (CHR ''c'', 12), (CHR ''d'', 13), (CHR ''e'', 14),
             (CHR ''f'', 15), (CHR ''A'', 10), (CHR ''B'', 11), (CHR ''C'', 12), (CHR ''D'', 13),
             (CHR ''E'', 14), (CHR ''F'', 15)] c"

definition hex_digit :: "nat \<Rightarrow> char" where
  "hex_digit n = (if n < 16 then ''0123456789abcdef'' ! n else CHR ''0'')"

definition skip_hyphen :: "string \<Rightarrow> string" where
  "skip_hyphen src = (case src of [] \<Rightarrow> [] | c # rest \<Rightarrow> (if c = CHR ''-'' then rest else src))"

text \<open>
  The input loop, with \<open>n\<close> bytes still to read after this one: the byte read has index
  \<open>15 - n\<close>, and a hyphen may follow it when that index is odd and not the last.
\<close>

fun parse_uuid_bytes :: "nat \<Rightarrow> string \<Rightarrow> (nat list \<times> string) option" where
  "parse_uuid_bytes 0 src = Some ([], src)"
| "parse_uuid_bytes (Suc n) src =
     (case src of
        c1 # c2 # rest \<Rightarrow>
          (case hex_value c1 of
             None \<Rightarrow> None
           | Some h \<Rightarrow>
               (case hex_value c2 of
                  None \<Rightarrow> None
                | Some l \<Rightarrow>
                    (case parse_uuid_bytes n (if even n \<and> 0 < n then skip_hyphen rest else rest) of
                       None \<Rightarrow> None
                     | Some (ds, r) \<Rightarrow> Some (h # l # ds, r))))
      | _ \<Rightarrow> None)"

definition uuid_in :: "string \<Rightarrow> uuid option" where
  "uuid_in s =
     (case s of
        [] \<Rightarrow> None
      | c # rest \<Rightarrow>
          (if c = CHR ''{'' then
             (case parse_uuid_bytes 16 rest of
                None \<Rightarrow> None
              | Some (ds, r) \<Rightarrow> (if r = ''}'' then Some (Uuid ds) else None))
           else
             (case parse_uuid_bytes 16 s of
                None \<Rightarrow> None
              | Some (ds, r) \<Rightarrow> (if r = [] then Some (Uuid ds) else None))))"

text \<open>
  The output loop, with \<open>n\<close> bytes still to write after this one: a hyphen follows the
  bytes of index 3, 5, 7 and 9.
\<close>

fun render_uuid_bytes :: "nat \<Rightarrow> nat list \<Rightarrow> string" where
  "render_uuid_bytes n (h # l # ds) =
     hex_digit h # hex_digit l #
       (if n = 12 \<or> n = 10 \<or> n = 8 \<or> n = 6 then CHR ''-'' # render_uuid_bytes (n - 1) ds
        else render_uuid_bytes (n - 1) ds)"
| "render_uuid_bytes n ds = []"

definition uuid_out :: "uuid \<Rightarrow> string" where
  "uuid_out u = (case u of Uuid ds \<Rightarrow> render_uuid_bytes 15 ds)"

text \<open>
  A JSON object is a list of members, read by key. A JSON value as the operator \<open>->>\<close> sees it: JSON null, or a value with a text rendering
  (a JSON string is rendered as its contents, a number or boolean as its literal).
\<close>

datatype jval = JNull | JText string

type_synonym jsonb = "(string \<times> jval) list"

text \<open>\<open>j ->> k\<close>: NULL when \<open>j\<close> is NULL, when the key is missing, or when the value is JSON null.\<close>

definition json_get_text :: "jsonb option \<Rightarrow> string \<Rightarrow> string option" where
  "json_get_text j k =
     (case j of
        None \<Rightarrow> None
      | Some obj \<Rightarrow> (case map_of obj k of None \<Rightarrow> None | Some JNull \<Rightarrow> None | Some (JText s) \<Rightarrow> Some s))"

text \<open>\<open>COALESCE(a, b)\<close> for two arguments.\<close>

definition coalesce :: "'a option \<Rightarrow> 'a option \<Rightarrow> 'a option" where
  "coalesce a b = (case a of Some x \<Rightarrow> Some x | None \<Rightarrow> b)"

text \<open>SQL equality is three-valued: NULL if either side is NULL.\<close>

definition sql_eq :: "'a option \<Rightarrow> 'a option \<Rightarrow> bool option" where
  "sql_eq a b = (case a of None \<Rightarrow> None | Some x \<Rightarrow> (case b of None \<Rightarrow> None | Some y \<Rightarrow> Some (x = y)))"

text \<open>\<open>a OR b\<close> in three-valued logic.\<close>

definition sql_or :: "bool option \<Rightarrow> bool option \<Rightarrow> bool option" where
  "sql_or a b =
     (if a = Some True \<or> b = Some True then Some True
      else if a = Some False \<and> b = Some False then Some False
      else None)"

text \<open>An \<open>IF\<close> condition, a policy expression and a \<open>WHERE\<close> clause pass only on TRUE.\<close>

definition is_true :: "bool option \<Rightarrow> bool" where
  "is_true c = (c = Some True)"

text \<open>
  What the database knows about the caller: \<open>auth.uid()\<close> (the \<open>sub\<close> claim of the verified
  token, NULL without one) and \<open>auth.jwt()\<close> (the claims, NULL without a token).
\<close>

record jwt_context =
  auth_uid :: "uuid option"
  auth_jwt :: "jsonb option"

text \<open>The test \<open>COALESCE(auth.jwt() ->> 'role', '') = 'service_role'\<close>, used by policies and functions.\<close>

definition service_role_claim :: "jwt_context \<Rightarrow> bool option" where
  "service_role_claim ctx =
     sql_eq (coalesce (json_get_text (auth_jwt ctx) ''role'') (Some '''')) (Some ''service_role'')"

section \<open>Permission function and row-level policies\<close>

text \<open>\<open>public.check_user_permission(resource_user_id, required_permission)\<close>.\<close>

definition check_user_permission :: "jwt_context \<Rightarrow> uuid option \<Rightarrow> string option \<Rightarrow> bool" where
  "check_user_permission ctx resource_user_id required_permission =
     (if auth_uid ctx = None then False
      else if is_true (sql_eq (auth_uid ctx) resource_user_id) then True
      else if is_true (service_role_claim ctx) then True
      else False)"

text \<open>\<open>public.is_admin()\<close>.\<close>

definition is_admin :: "jwt_context \<Rightarrow> bool" where
  "is_admin ctx = (if is_true (service_role_claim ctx) then True else False)"

datatype sql_command = SELECT | INSERT | UPDATE | DELETE

text \<open>
  A permissive policy: the command it is declared for (\<open>None\<close> is \<open>FOR ALL\<close>) and its
  expression over the caller and the \<open>user_id\<close> of the row. A \<open>USING\<close> expression is also the
  check of new rows when no \<open>WITH CHECK\<close> is given, so one expression per policy is enough here.
\<close>

record policy =
  policy_name :: string
  policy_for :: "sql_command option"
  policy_expr :: "jwt_context \<Rightarrow> uuid option \<Rightarrow> bool option"

definition profiles_policies :: "policy list" where
  "profiles_policies =
     [\<lparr>policy_name = ''read_own_profile'', policy_for = Some SELECT,
        policy_expr = (\<lambda>ctx row_user_id. sql_eq (auth_uid ctx) row_user_id)\<rparr>,
      \<lparr>policy_name = ''update_own_profile'', policy_for = Some UPDATE,
        policy_expr = (\<lambda>ctx row_user_id. sql_eq (auth_uid ctx) row_user_id)\<rparr>,
      \<lparr>policy_name = ''insert_own_profile'', policy_for = Some INSERT,
        policy_expr = (\<lambda>ctx row_user_id. sql_eq (auth_uid ctx) row_user_id)\<rparr>,
      \<lparr>policy_name = ''service_role_full_access_profiles'', policy_for = None,
        policy_expr = (\<lambda>ctx row_user_id. service_role_claim ctx)\<rparr>]"

definition audit_logs_policies :: "policy list" where
  "audit_logs_policies =
     [\<lparr>policy_name = ''read_own_audit_logs'', policy_for = Some SELECT,
        policy_expr = (\<lambda>ctx row_user_id.
           sql_or (sql_eq (auth_uid ctx) row_user_id) (Some (is_admin ctx)))\<rparr>,
      \<lparr>policy_name = ''service_role_full_access_audit_logs'', policy_for = None,
        policy_expr = (\<lambda>ctx row_user_id. service_role_claim ctx)\<rparr>]"

definition policy_applies :: "policy \<Rightarrow> sql_command \<Rightarrow> bool" where
  "policy_applies p cmd = (case policy_for p of None \<Rightarrow> True | Some c \<Rightarrow> c = cmd)"

text \<open>
  With row-level security enabled, a row passes for a command when some policy that applies
  to the command evaluates to TRUE on it; with no such policy the row is refused.
\<close>

fun rls_allows :: "policy list \<Rightarrow> sql_command \<Rightarrow> jwt_context \<Rightarrow> uuid option \<Rightarrow> bool" where
  "rls_allows [] cmd ctx row_user_id = False"
| "rls_allows (p # ps) cmd ctx row_user_id =
     (if policy_applies p cmd \<and> is_true (policy_expr p ctx row_user_id) then True
      else rls_allows ps cmd ctx row_user_id)"

section \<open>Tables\<close>

record profiles_row =
  user_id :: uuid
  email :: "string option"
  full_name :: "string option"
  avatar_url :: "string option"
  created_at :: timestamptz
  updated_at :: timestamptz

record auth_users_row =
  au_id :: uuid
  au_email :: "string option"
  raw_user_meta_data :: "jsonb option"

record audit_logs_row =
  al_id :: uuid
  al_user_id :: "uuid option"
  al_action :: string
  al_table_name :: "string option"
  al_record_id :: "string option"
  al_old_values :: "jsonb option"
  al_new_values :: "jsonb option"
  al_ip_address :: "string option"
  al_user_agent :: "string option"
  al_created_at :: timestamptz

record database =
  profiles :: "profiles_row list"
  auth_users :: "auth_users_row list"
  audit_logs :: "audit_logs_row list"

text \<open>The errors a statement can raise here: the constraints declared on the tables.\<close>

datatype sql_error =
  unique_violation string
| not_null_violation string
| foreign_key_violation string

definition select_profile :: "database \<Rightarrow> uuid \<Rightarrow> profiles_row option" where
  "select_profile db user_uuid = find (\<lambda>r. user_id r = user_uuid) (profiles db)"

definition select_auth_user :: "database \<Rightarrow> uuid \<Rightarrow> auth_users_row option" where
  "select_auth_user db user_uuid = find (\<lambda>a. au_id a = user_uuid) (auth_users db)"

text \<open>
  \<open>INSERT INTO public.profiles\<close> of one row: \<open>user_id\<close> is the primary key and references
  \<open>auth.users(id)\<close>. The unique index is checked when the row is written, the foreign key
  at the end of the statement.
\<close>

definition insert_profile :: "profiles_row \<Rightarrow> database \<Rightarrow> sql_error + database" where
  "insert_profile new_row db =
     (case select_profile db (user_id new_row) of
        Some existing \<Rightarrow> Inl (unique_violation ''profiles_pkey'')
      | None \<Rightarrow>
          (case select_auth_user db (user_id new_row) of
             None \<Rightarrow> Inl (foreign_key_violation ''profiles_user_id_fkey'')
           | Some au \<Rightarrow> Inr (db\<lparr>profiles := profiles db @ [new_row]\<rparr>)))"

text \<open>The same insert with \<open>ON CONFLICT (user_id) DO NOTHING\<close>.\<close>

definition insert_profile_do_nothing :: "profiles_row \<Rightarrow> database \<Rightarrow> sql_error + database" where
  "insert_profile_do_nothing new_row db =
     (case select_profile db (user_id new_row) of
        Some existing \<Rightarrow> Inr db
      | None \<Rightarrow> insert_profile new_row db)"

text \<open>\<open>public.handle_updated_at()\<close>, the \<open>BEFORE UPDATE\<close> row trigger of \<open>profiles\<close>.\<close>

definition handle_updated_at :: "sql_session \<Rightarrow> profiles_row \<Rightarrow> profiles_row" where
  "handle_updated_at ss new = new\<lparr>updated_at := timezone_utc_now ss\<rparr>"

text \<open>
  \<open>UPDATE public.profiles SET ... WHERE ...\<close>: every row passing the condition is replaced
  by its \<open>SET\<close> image, passed through the trigger \<open>update_profiles_updated_at\<close>.
\<close>

definition update_profiles ::
  "sql_session \<Rightarrow> (profiles_row \<Rightarrow> bool) \<Rightarrow> (profiles_row \<Rightarrow> profiles_row) \<Rightarrow> database \<Rightarrow> database" where
  "update_profiles ss cond set_clause db =
     db\<lparr>profiles := map (\<lambda>r. if cond r then handle_updated_at ss (set_clause r) else r) (profiles db)\<rparr>"

section \<open>Stored procedures\<close>

record procedure_result =
  success :: bool
  code :: string
  message :: string
  profile :: "profiles_row option"

text \<open>
  \<open>public.get_or_create_profile(user_uuid)\<close>. Its insert names neither \<open>created_at\<close> nor
  \<open>updated_at\<close>, which take the column default \<open>TIMEZONE('utc'::text, NOW())\<close>. The function is two statements: the
  \<open>SELECT ... INTO profile_record\<close>, and, when it found nothing, the \<open>INSERT ... SELECT\<close>
  from \<open>auth.users\<close>. \<open>get_or_create_profile_rest\<close> is everything after the first
  statement, given what that statement found, run on the table contents it meets.
\<close>

definition new_profile_of :: "sql_session \<Rightarrow> uuid \<Rightarrow> auth_users_row \<Rightarrow> profiles_row" where
  "new_profile_of ss user_uuid au =
     \<lparr>user_id = user_uuid,
      email = coalesce (au_email au) (Some ''''),
      full_name = coalesce (json_get_text (raw_user_meta_data au) ''full_name'') (Some ''''),
      avatar_url = coalesce (json_get_text (raw_user_meta_data au) ''avatar_url'') (Some ''''),
      created_at = timezone_utc_now ss,
      updated_at = timezone_utc_now ss\<rparr>"

definition get_or_create_profile_rest ::
  "profiles_row option \<Rightarrow> sql_session \<Rightarrow> uuid \<Rightarrow> database \<Rightarrow> sql_error + (procedure_result \<times> database)" where
  "get_or_create_profile_rest found ss user_uuid db =
     (case found of
        Some profile_record \<Rightarrow>
          Inr (\<lparr>success = True, code = ''FOUND'', message = ''Profile found'',
                profile = Some profile_record\<rparr>, db)
      | None \<Rightarrow>
          (case select_auth_user db user_uuid of
             None \<Rightarrow>
               Inr (\<lparr>success = False, code = ''USER_NOT_FOUND'',
                     message = ''User not found in auth.users'', profile = None\<rparr>, db)
           | Some au \<Rightarrow>
               (case insert_profile (new_profile_of ss user_uuid au) db of
                  Inl e \<Rightarrow> Inl e
                | Inr db' \<Rightarrow>
                    Inr (\<lparr>success = True, code = ''CREATED'',
                          message = ''Profile created successfully'',
                          profile = Some (new_profile_of ss user_uuid au)\<rparr>, db'))))"

definition get_or_create_profile ::
  "sql_session \<Rightarrow> uuid \<Rightarrow> database \<Rightarrow> sql_error + (procedure_result \<times> database)" where
  "get_or_create_profile ss user_uuid db =
     get_or_create_profile_rest (select_profile db user_uuid) ss user_uuid db"



text \<open>
  \<open>public.sync_profile_from_auth_users()\<close>, the row trigger fired after an insert into
  \<open>auth.users\<close> or an update of its \<open>email\<close> or \<open>raw_user_meta_data\<close>. The result is the
  row the trigger returns (NULL for any other operation) and the new table contents.
\<close>

datatype tg_op = TG_INSERT | TG_UPDATE | TG_DELETE

definition sync_set_clause :: "sql_session \<Rightarrow> auth_users_row \<Rightarrow> profiles_row \<Rightarrow> profiles_row" where
  "sync_set_clause ss new r =
     r\<lparr>email := au_email new,
       full_name := coalesce (json_get_text (raw_user_meta_data new) ''full_name'') (full_name r),
       avatar_url := coalesce (json_get_text (raw_user_meta_data new) ''avatar_url'') (avatar_url r),
       updated_at := timezone_utc_now ss\<rparr>"

definition sync_profile_from_auth_users ::
  "sql_session \<Rightarrow> tg_op \<Rightarrow> auth_users_row \<Rightarrow> database \<Rightarrow> sql_error + (auth_users_row option \<times> database)" where
  "sync_profile_from_auth_users ss op new db =
     (if op = TG_INSERT then
        (case insert_profile_do_nothing
                \<lparr>user_id = au_id new,
                 email = au_email new,
                 full_name = coalesce (json_get_text (raw_user_meta_data new) ''full_name'') (Some ''''),
                 avatar_url = coalesce (json_get_text (raw_user_meta_data new) ''avatar_url'') (Some ''''),
                 created_at = timezone_utc_now ss,
                 updated_at = timezone_utc_now ss\<rparr> db of
           Inl e \<Rightarrow> Inl e
         | Inr db' \<Rightarrow> Inr (Some new, db'))
      else if op = TG_UPDATE then
        Inr (Some new, update_profiles ss (\<lambda>r. user_id r = au_id new) (sync_set_clause ss new) db)
      else Inr (None, db))"

text \<open>
  \<open>public.log_audit_event(...)\<close>: one \<open>INSERT INTO public.audit_logs\<close> and nothing else; the
  function has no exception handler, so a failing insert is raised to the caller. The
  constraints of the table: \<open>action\<close> is \<open>NOT NULL\<close>, \<open>id\<close> is the primary key (filled by
  \<open>gen_random_uuid()\<close>, here the parameter \<open>new_id\<close>), \<open>user_id\<close> references
  \<open>auth.users(id)\<close> and may be NULL. \<open>created_at\<close> takes its default,
  \<open>TIMEZONE('utc'::text, NOW())\<close>.
\<close>

definition audit_actor_known :: "jwt_context \<Rightarrow> database \<Rightarrow> bool" where
  "audit_actor_known ctx db =
     (case auth_uid ctx of
        None \<Rightarrow> True
      | Some u \<Rightarrow> (case select_auth_user db u of None \<Rightarrow> False | Some au \<Rightarrow> True))"

definition log_audit_event ::
  "jwt_context \<Rightarrow> sql_session \<Rightarrow> uuid \<Rightarrow> string option \<Rightarrow> string option \<Rightarrow> string option \<Rightarrow>
   jsonb option \<Rightarrow> jsonb option \<Rightarrow> database \<Rightarrow> sql_error + database" where
  "log_audit_event ctx ss new_id p_action p_table_name p_record_id p_old_values p_new_values db =
     (case p_action of
        None \<Rightarrow> Inl (not_null_violation ''action'')
      | Some action \<Rightarrow>
          (case find (\<lambda>l. al_id l = new_id) (audit_logs db) of
             Some existing \<Rightarrow> Inl (unique_violation ''audit_logs_pkey'')
           | None \<Rightarrow>
               (if audit_actor_known ctx db then
                  Inr (db\<lparr>audit_logs := audit_logs db @
                        [\<lparr>al_id = new_id, al_user_id = auth_uid ctx, al_action = action,
                          al_table_name = p_table_name, al_record_id = p_record_id,
                          al_old_values = p_old_values, al_new_values = p_new_values,
                          al_ip_address = None, al_user_agent = None,
                          al_created_at = timezone_utc_now ss\<rparr>]\<rparr>)
                else Inl (foreign_key_violation ''audit_logs_user_id_fkey''))))"

section \<open>Application layer: the server-side session resolver\<close>

text \<open>
  The TypeScript of \<open>server/server-auth.ts\<close>. An awaited call either throws (the promise is
  rejected, with the message of the error) or returns. Every call into the identity provider
  or the database is a field of the environment: its outcome for this request.
\<close>

datatype 'a promise = Rejected string | Resolved 'a

record supabase_user =
  su_id :: string
  su_email :: "string option"
  su_user_metadata :: "jsonb option"

record supabase_session =
  ss_access_token :: string
  ss_user :: supabase_user

text \<open>\<open>{ data: { user }, error }\<close> and \<open>{ data: { session }, error }\<close>; an error is kept as its message.\<close>

record get_user_response =
  gu_user :: "supabase_user option"
  gu_error :: "string option"

record get_session_response =
  gs_session :: "supabase_session option"
  gs_error :: "string option"

text \<open>The interface \<open>AuthSession\<close> of \<open>types/auth-types.ts\<close>.\<close>

record auth_session_user =
  asu_id :: string
  asu_email :: "string option"
  asu_user_metadata :: jsonb

record auth_session =
  as_user :: auth_session_user
  as_access_token :: string

text \<open>
  \<open>supabase.rpc(...)\<close> resolves to \<open>{ data, error }\<close>: the call can throw, can come back with an
  error of its own, or reaches the database, where the procedure runs (and an error raised
  there comes back as \<open>error\<close> too).
\<close>

datatype rpc_fault = no_fault | rpc_error string | rpc_threw string

record server_env =
  session_client :: "unit promise"
  get_user :: "get_user_response promise"
  get_session :: "get_session_response promise"
  profile_client :: "unit promise"
  rpc_transport :: rpc_fault
  request_session :: sql_session

text \<open>\<open>session?.access_token || ''\<close>.\<close>

definition access_token_or_empty :: "supabase_session option \<Rightarrow> string" where
  "access_token_or_empty session =
     (case session of None \<Rightarrow> '''' | Some s \<Rightarrow> (if ss_access_token s = '''' then '''' else ss_access_token s))"

text \<open>\<open>user.user_metadata || {}\<close>.\<close>

definition metadata_or_empty :: "jsonb option \<Rightarrow> jsonb" where
  "metadata_or_empty m = (case m of None \<Rightarrow> [] | Some obj \<Rightarrow> obj)"

text \<open>\<open>getServerSession()\<close>: the whole body is inside \<open>try\<close>, and the \<open>catch\<close> returns null.\<close>

definition getServerSession :: "server_env \<Rightarrow> auth_session option" where
  "getServerSession env =
     (case session_client env of
        Rejected e \<Rightarrow> None
      | Resolved supabase \<Rightarrow>
          (case get_user env of
             Rejected e \<Rightarrow> None
           | Resolved ur \<Rightarrow>
               (case gu_error ur of
                  Some err \<Rightarrow> None
                | None \<Rightarrow>
                    (case gu_user ur of
                       None \<Rightarrow> None
                     | Some user \<Rightarrow>
                         (case get_session env of
                            Rejected e \<Rightarrow> None
                          | Resolved sr \<Rightarrow>
                              Some \<lparr>as_user = \<lparr>asu_id = su_id user, asu_email = su_email user,
                                               asu_user_metadata = metadata_or_empty (su_user_metadata user)\<rparr>,
                                    as_access_token = access_token_or_empty (gs_session sr)\<rparr>)))))"

text \<open>\<open>getCurrentUserId()\<close>: \<open>session?.user?.id || null\<close>.\<close>

definition getCurrentUserId :: "server_env \<Rightarrow> string option" where
  "getCurrentUserId env =
     (case getServerSession env of
        None \<Rightarrow> None
      | Some session \<Rightarrow> (if asu_id (as_user session) = '''' then None else Some (asu_id (as_user session))))"

text \<open>
  The interface \<open>UserProfile\<close>: the profile row as \<open>row_to_json\<close> renders it (the \<open>user_id\<close> in
  the output form of its UUID), with three fields taken from the session.
\<close>

record user_profile =
  up_user_id :: string
  up_email :: "string option"
  up_full_name :: "jval option"
  up_avatar_url :: "jval option"
  up_created_at :: timestamptz
  up_updated_at :: timestamptz

text \<open>\<open>{ ...profile, email: session.user.email, full_name: ..., avatar_url: ... }\<close>.\<close>

definition merge_profile :: "profiles_row \<Rightarrow> auth_session \<Rightarrow> user_profile" where
  "merge_profile p session =
     \<lparr>up_user_id = uuid_out (user_id p),
      up_email = asu_email (as_user session),
      up_full_name = map_of (asu_user_metadata (as_user session)) ''full_name'',
      up_avatar_url = map_of (asu_user_metadata (as_user session)) ''avatar_url'',
      up_created_at = created_at p,
      up_updated_at = updated_at p\<rparr>"

text \<open>
  \<open>authenticateUser()\<close>. The remote procedure may create the profile, so the table contents
  are passed through. The argument \<open>user_uuid\<close> is sent as the string \<open>session.user.id\<close> and
  read by the database as a UUID; a string that is no UUID makes the call fail, and so does
  a procedure that raises, which is rolled back. Either comes back as \<open>error\<close>.
\<close>

definition authenticateUser :: "server_env \<Rightarrow> database \<Rightarrow> user_profile option \<times> database" where
  "authenticateUser env db =
     (case getServerSession env of
        None \<Rightarrow> (None, db)
      | Some session \<Rightarrow>
          (if asu_id (as_user session) = '''' then (None, db)
           else
             (case profile_client env of
                Rejected e \<Rightarrow> (None, db)
              | Resolved supabase \<Rightarrow>
                  (case rpc_transport env of
                     rpc_threw e \<Rightarrow> (None, db)
                   | rpc_error e \<Rightarrow> (None, db)
                   | no_fault \<Rightarrow>
                       (case uuid_in (asu_id (as_user session)) of
                          None \<Rightarrow> (None, db)
                        | Some user_uuid \<Rightarrow>
                            (case get_or_create_profile (request_session env) user_uuid db of
                               Inl e \<Rightarrow> (None, db)
                             | Inr (profileResult, db') \<Rightarrow>
                                 (if success profileResult then
                                    (case profile profileResult of
                                       None \<Rightarrow> (None, db')
                                     | Some p \<Rightarrow> (Some (merge_profile p session), db'))
                                  else (None, db'))))))))"

text \<open>\<open>isAuthenticated()\<close>.\<close>

definition isAuthenticated :: "server_env \<Rightarrow> bool" where
  "isAuthenticated env = (case getCurrentUserId env of None \<Rightarrow> False | Some userId \<Rightarrow> True)"

text \<open>The result \<open>{ authorized, user? }\<close> of \<open>checkUserPermission(userId, permission?)\<close>.\<close>

record permission_check =
  authorized :: bool
  pc_user :: "user_profile option"

definition checkUserPermission ::
  "server_env \<Rightarrow> database \<Rightarrow> string \<Rightarrow> string option \<Rightarrow> permission_check \<times> database" where
  "checkUserPermission env db userId permission =
     (case authenticateUser env db of
        (None, db') \<Rightarrow> (\<lparr>authorized = False, pc_user = None\<rparr>, db')
      | (Some user, db') \<Rightarrow>
          (if up_user_id user = userId then (\<lparr>authorized = True, pc_user = Some user\<rparr>, db')
           else (\<lparr>authorized = False, pc_user = None\<rparr>, db')))"

section \<open>Application layer: the OAuth callback component\<close>

text \<open>
  The effect \<open>handleAuthCallback\<close> of the \<open>AuthCallback\<close> component. A JavaScript string is a
  \<open>string\<close>; the four message literals of the component are Chinese and are kept as their
  UTF-8 bytes.
\<close>

text \<open>The literal thrown when no session was obtained ("no authentication session obtained").\<close>

definition msg_no_session :: string where
  "msg_no_session =
     [CHR 0xE6, CHR 0x9C, CHR 0xAA, CHR 0xE8, CHR 0x8E, CHR 0xB7, CHR 0xE5, CHR 0x8F, CHR 0x96,
      CHR 0xE5, CHR 0x88, CHR 0xB0, CHR 0xE8, CHR 0xAE, CHR 0xA4, CHR 0xE8, CHR 0xAF, CHR 0x81,
      CHR 0xE4, CHR 0xBC, CHR 0x9A, CHR 0xE8, CHR 0xAF, CHR 0x9D]"

text \<open>The fallback of \<open>error.message || ...\<close> ("authentication failed, please retry").\<close>

definition msg_auth_failed :: string where
  "msg_auth_failed =
     [CHR 0xE8, CHR 0xAE, CHR 0xA4, CHR 0xE8, CHR 0xAF, CHR 0x81, CHR 0xE5, CHR 0xA4, CHR 0xB1,
      CHR 0xE8, CHR 0xB4, CHR 0xA5, CHR 0xEF, CHR 0xBC, CHR 0x8C, CHR 0xE8, CHR 0xAF, CHR 0xB7,
      CHR 0xE9, CHR 0x87, CHR 0x8D, CHR 0xE8, CHR 0xAF, CHR 0x95]"

text \<open>The message of the success state ("authentication succeeded, redirecting...").\<close>

definition msg_success :: string where
  "msg_success =
     [CHR 0xE8, CHR 0xAE, CHR 0xA4, CHR 0xE8, CHR 0xAF, CHR 0x81, CHR 0xE6, CHR 0x88, CHR 0x90,
      CHR 0xE5, CHR 0x8A, CHR 0x9F, CHR 0xEF, CHR 0xBC, CHR 0x81, CHR 0xE6, CHR 0xAD, CHR 0xA3,
      CHR 0xE5, CHR 0x9C, CHR 0xA8, CHR 0xE8, CHR 0xB7, CHR 0xB3, CHR 0xE8, CHR 0xBD, CHR 0xAC,
      CHR 0x2E, CHR 0x2E, CHR 0x2E]"

text \<open>
  The browser-visible URL: its path and its query parameters, decoded, in order.
  \<open>searchParams.get(name)\<close> is the first value of the name, or null.
\<close>

record url =
  pathname :: string
  search_params :: "(string \<times> string) list"

definition search_get :: "url \<Rightarrow> string \<Rightarrow> string option" where
  "search_get u name = map_of (search_params u) name"

text \<open>A string or null is truthy when it is a non-empty string; \<open>a || b\<close> on such values.\<close>

definition truthy :: "string option \<Rightarrow> bool" where
  "truthy v = (case v of None \<Rightarrow> False | Some s \<Rightarrow> (if s = '''' then False else True))"

definition js_or :: "string option \<Rightarrow> string option \<Rightarrow> string option" where
  "js_or a b = (if truthy a then a else b)"

text \<open>\<open>window.history.replaceState({}, document.title, currentUrl.pathname)\<close>.\<close>

definition replaceState :: "url \<Rightarrow> url" where
  "replaceState current_url = \<lparr>pathname = pathname current_url, search_params = []\<rparr>"

datatype provider_call = ExchangeCodeForSession | GetSession

text \<open>
  The environment of one landing: \<open>decodeURIComponent\<close> (which throws on a malformed escape),
  the construction of the client, and what the provider answers to the code exchange and to
  the session lookup.
\<close>

record browser_env =
  decodeURIComponent :: "string \<Rightarrow> string promise"
  create_client :: "unit promise"
  exchange_code_for_session :: "get_session_response promise"
  lookup_session :: "get_session_response promise"

record auth_callback_props =
  successRedirect :: string
  errorRedirect :: string
  successDelay :: nat
  errorDelay :: nat

definition default_props :: auth_callback_props where
  "default_props =
     \<lparr>successRedirect = ''/'', errorRedirect = ''/login'', successDelay = 1500, errorDelay = 3000\<rparr>"

text \<open>
  What a step of the effect leaves behind: the value it produced or the error it threw, the
  URL the browser shows, and the provider calls made so far.
\<close>

record 'a step =
  outcome :: "'a promise"
  location :: url
  calls :: "provider_call list"

text \<open>
  The branch \<open>if (hasCode) { try ... catch ... finally ... }\<close>. An exchange that returns an
  error or throws lands in the \<open>catch\<close>, which looks the session up and ignores the error
  of the lookup; the \<open>finally\<close> replaces the URL on every way out, also when the lookup throws.
\<close>

definition fallback_lookup :: "browser_env \<Rightarrow> url \<Rightarrow> supabase_session option step" where
  "fallback_lookup env current_url =
     (case lookup_session env of
        Rejected e \<Rightarrow>
          \<lparr>outcome = Rejected e, location = replaceState current_url,
            calls = [ExchangeCodeForSession, GetSession]\<rparr>
      | Resolved r \<Rightarrow>
          \<lparr>outcome = Resolved (gs_session r), location = replaceState current_url,
            calls = [ExchangeCodeForSession, GetSession]\<rparr>)"

definition exchange_branch :: "browser_env \<Rightarrow> url \<Rightarrow> supabase_session option step" where
  "exchange_branch env current_url =
     (case exchange_code_for_session env of
        Rejected e \<Rightarrow> fallback_lookup env current_url
      | Resolved r \<Rightarrow>
          (case gs_error r of
             Some err \<Rightarrow> fallback_lookup env current_url
           | None \<Rightarrow>
               \<lparr>outcome = Resolved (gs_session r), location = replaceState current_url,
                 calls = [ExchangeCodeForSession]\<rparr>))"

text \<open>The branch without a code: the lookup alone, whose error is thrown on.\<close>

definition direct_lookup :: "browser_env \<Rightarrow> url \<Rightarrow> supabase_session option step" where
  "direct_lookup env current_url =
     (case lookup_session env of
        Rejected e \<Rightarrow> \<lparr>outcome = Rejected e, location = current_url, calls = [GetSession]\<rparr>
      | Resolved r \<Rightarrow>
          (case gs_error r of
             Some err \<Rightarrow> \<lparr>outcome = Rejected err, location = current_url, calls = [GetSession]\<rparr>
           | None \<Rightarrow>
               \<lparr>outcome = Resolved (gs_session r), location = current_url, calls = [GetSession]\<rparr>))"

text \<open>The \<open>try\<close> block up to the test \<open>if (session)\<close>.\<close>

definition obtain_session :: "browser_env \<Rightarrow> url \<Rightarrow> supabase_session option step" where
  "obtain_session env current_url =
     (let oauthError = js_or (search_get current_url ''error_description'')
                             (search_get current_url ''error'')
      in if truthy oauthError then
           (case decodeURIComponent env (case oauthError of None \<Rightarrow> '''' | Some s \<Rightarrow> s) of
              Rejected e \<Rightarrow> \<lparr>outcome = Rejected e, location = current_url, calls = []\<rparr>
            | Resolved decoded \<Rightarrow> \<lparr>outcome = Rejected decoded, location = current_url, calls = []\<rparr>)
         else
           (let hasCode = truthy (search_get current_url ''code'')
            in case create_client env of
                 Rejected e \<Rightarrow> \<lparr>outcome = Rejected e, location = current_url, calls = []\<rparr>
               | Resolved supabase \<Rightarrow>
                   (if hasCode then exchange_branch env current_url
                    else direct_lookup env current_url)))"

datatype callback_status = loading | succeeded | failed

text \<open>
  The page once the effect has run: the status and message shown, the URL in the address bar,
  the navigation scheduled by \<open>setTimeout\<close> (destination and delay), the session that decided
  a success, and the provider calls made.
\<close>

record callback_page =
  status :: callback_status
  shown_message :: string
  address_bar :: url
  scheduled_redirect :: "string \<times> nat"
  obtained_session :: "supabase_session option"
  provider_calls :: "provider_call list"

text \<open>The \<open>catch\<close> of the effect: \<open>error.message || ...\<close>, and the redirect to the error page.\<close>

definition fail_with :: "auth_callback_props \<Rightarrow> string \<Rightarrow> url \<Rightarrow> provider_call list \<Rightarrow> callback_page" where
  "fail_with props error_message loc made =
     \<lparr>status = failed,
      shown_message = (if error_message = '''' then msg_auth_failed else error_message),
      address_bar = loc,
      scheduled_redirect = (errorRedirect props, errorDelay props),
      obtained_session = None,
      provider_calls = made\<rparr>"

definition handleAuthCallback :: "auth_callback_props \<Rightarrow> browser_env \<Rightarrow> url \<Rightarrow> callback_page" where
  "handleAuthCallback props env current_url =
     (let s = obtain_session env current_url
      in case outcome s of
           Rejected e \<Rightarrow> fail_with props e (location s) (calls s)
         | Resolved None \<Rightarrow> fail_with props msg_no_session (location s) (calls s)
         | Resolved (Some session) \<Rightarrow>
             \<lparr>status = succeeded,
              shown_message = msg_success,
              address_bar = location s,
              scheduled_redirect = (successRedirect props, successDelay props),
              obtained_session = Some session,
              provider_calls = calls s\<rparr>)"

section \<open>Notions used to state the properties\<close>

text \<open>
  A subject can be given a profile by \<open>get_or_create_profile\<close>: it has one already, or it has
  a row in \<open>auth.users\<close> to create one from.
\<close>

definition provisionable :: "database \<Rightarrow> uuid \<Rightarrow> bool" where
  "provisionable db u =
     (case select_profile db u of
        Some r \<Rightarrow> True
      | None \<Rightarrow> (case select_auth_user db u of Some au \<Rightarrow> True | None \<Rightarrow> False))"

text \<open>
  The server and the database see the same caller: no session on the one side and no
  subject on the other, or a session whose user id is a text of the subject's UUID.
\<close>

definition same_subject :: "server_env \<Rightarrow> jwt_context \<Rightarrow> bool" where
  "same_subject env ctx =
     (case getServerSession env of
        None \<Rightarrow> (case auth_uid ctx of None \<Rightarrow> True | Some u \<Rightarrow> False)
      | Some session \<Rightarrow>
          (case auth_uid ctx of
             None \<Rightarrow> False
           | Some u \<Rightarrow> uuid_in (asu_id (as_user session)) = Some u))"

text \<open>
  The profile retrieval of the server goes through: the client is built, the remote call
  reaches the database, and the subject can be given a profile.
\<close>

definition retrieval_succeeds :: "server_env \<Rightarrow> database \<Rightarrow> jwt_context \<Rightarrow> bool" where
  "retrieval_succeeds env db ctx =
     (profile_client env = Resolved () \<and> rpc_transport env = no_fault
      \<and> (case auth_uid ctx of None \<Rightarrow> True | Some u \<Rightarrow> provisionable db u))"

text \<open>The token of the caller carries the service role.\<close>

definition has_service_role :: "jwt_context \<Rightarrow> bool" where
  "has_service_role ctx = (json_get_text (auth_jwt ctx) ''role'' = Some ''service_role'')"

text \<open>
  The three branches of the callback, by the landing URL: an error parameter is present;
  otherwise a code is present and the client could be built (the exchange is attempted);
  otherwise no code is present and the client could be built (the session is looked up
  directly).
\<close>

definition error_parameter_branch :: "url \<Rightarrow> bool" where
  "error_parameter_branch u =
     truthy (js_or (search_get u ''error_description'') (search_get u ''error''))"

definition code_exchange_branch :: "browser_env \<Rightarrow> url \<Rightarrow> bool" where
  "code_exchange_branch env u =
     (if error_parameter_branch u then False
      else (case create_client env of Rejected e \<Rightarrow> False | Resolved c \<Rightarrow> truthy (search_get u ''code'')))"

text \<open>The code exchange fails: it throws, or it returns an error.\<close>

definition exchange_failed :: "browser_env \<Rightarrow> bool" where
  "exchange_failed env =
     (case exchange_code_for_session env of
        Rejected e \<Rightarrow> True
      | Resolved r \<Rightarrow> (case gs_error r of Some err \<Rightarrow> True | None \<Rightarrow> False))"

text \<open>
  Identity verification succeeds when the client is built and \<open>getUser()\<close> returns a user and
  no error; it fails in every other case (the call throws, returns an error, or returns no
  user).
\<close>

definition verified_user :: "server_env \<Rightarrow> supabase_user option" where
  "verified_user env =
     (case session_client env of
        Rejected e \<Rightarrow> None
      | Resolved supabase \<Rightarrow>
          (case get_user env of
             Rejected e \<Rightarrow> None
           | Resolved ur \<Rightarrow> (case gu_error ur of Some err \<Rightarrow> None | None \<Rightarrow> gu_user ur)))"

section \<open>Concrete requests and table contents\<close>

text \<open>
  The values at which the properties below are evaluated. Three user ids, each with its
  output text; the id of alice also in upper case, another input text of the same UUID.
\<close>

definition alice_id :: uuid where
  "alice_id = Uuid [10, 10, 10, 10, 10, 10, 10, 10, 10, 10, 10, 10, 10, 10, 10, 10,
                    10, 10, 10, 10, 10, 10, 10, 10, 10, 10, 10, 10, 10, 10, 10, 10]"

definition bob_id :: uuid where
  "bob_id = Uuid [11, 11, 11, 11, 11, 11, 11, 11, 11, 11, 11, 11, 11, 11, 11, 11,
                  11, 11, 11, 11, 11, 11, 11, 11, 11, 11, 11, 11, 11, 11, 11, 11]"

definition carol_id :: uuid where
  "carol_id = Uuid [12, 12, 12, 12, 12, 12, 12, 12, 12, 12, 12, 12, 12, 12, 12, 12,
                    12, 12, 12, 12, 12, 12, 12, 12, 12, 12, 12, 12, 12, 12, 12, 12]"

definition event_id :: uuid where
  "event_id = Uuid [14, 14, 14, 14, 14, 14, 14, 14, 14, 14, 14, 14, 14, 14, 14, 14,
                    14, 14, 14, 14, 14, 14, 14, 14, 14, 14, 14, 14, 14, 14, 14, 14]"

definition alice_text :: string where
  "alice_text = ''aaaaaaaa-aaaa-aaaa-aaaa-aaaaaaaaaaaa''"

definition alice_upper_text :: string where
  "alice_upper_text = ''AAAAAAAA-AAAA-AAAA-AAAA-AAAAAAAAAAAA''"

definition bob_text :: string where
  "bob_text = ''bbbbbbbb-bbbb-bbbb-bbbb-bbbbbbbbbbbb''"

text \<open>A transaction that starts at \<open>t\<close> in a session whose time zone is UTC.\<close>

definition utc_session :: "timestamptz \<Rightarrow> sql_session" where
  "utc_session t = \<lparr>transaction_start = t, time_zone_offset = 0\<rparr>"

definition alice_row :: auth_users_row where
  "alice_row = \<lparr>au_id = alice_id, au_email = Some ''alice@example.com'',
                 raw_user_meta_data = Some [(''full_name'', JText ''Alice'')]\<rparr>"

definition bob_row :: auth_users_row where
  "bob_row = \<lparr>au_id = bob_id, au_email = Some ''bob@example.com'', raw_user_meta_data = None\<rparr>"

definition alice_profile :: profiles_row where
  "alice_profile = \<lparr>user_id = alice_id, email = Some ''alice@example.com'',
                     full_name = Some ''Alice'', avatar_url = Some '''',
                     created_at = 100, updated_at = 100\<rparr>"

text \<open>Both users registered, no profile yet; and the same with the profile of alice.\<close>

definition fresh_db :: database where
  "fresh_db = \<lparr>profiles = [], auth_users = [alice_row, bob_row], audit_logs = []\<rparr>"

definition alice_db :: database where
  "alice_db = \<lparr>profiles = [alice_profile], auth_users = [alice_row, bob_row], audit_logs = []\<rparr>"

text \<open>A signed-in request of alice, as the database and as the server see it.\<close>

definition alice_ctx :: jwt_context where
  "alice_ctx = \<lparr>auth_uid = Some alice_id,
                 auth_jwt = Some [(''sub'', JText alice_text), (''role'', JText ''authenticated'')]\<rparr>"

definition alice_user :: supabase_user where
  "alice_user = \<lparr>su_id = alice_text, su_email = Some ''alice@example.com'',
                  su_user_metadata = Some [(''full_name'', JText ''Alice'')]\<rparr>"

definition alice_env :: server_env where
  "alice_env =
     \<lparr>session_client = Resolved (),
      get_user = Resolved \<lparr>gu_user = Some alice_user, gu_error = None\<rparr>,
      get_session = Resolved \<lparr>gs_session = Some \<lparr>ss_access_token = ''token'', ss_user = alice_user\<rparr>,
                              gs_error = None\<rparr>,
      profile_client = Resolved (),
      rpc_transport = no_fault,
      request_session = utc_session 200\<rparr>"

text \<open>
  A request made with the service-role key: the token carries the role and no subject, so
  \<open>auth.uid()\<close> is NULL and the server finds no user behind it.
\<close>

definition service_key_ctx :: jwt_context where
  "service_key_ctx = \<lparr>auth_uid = None, auth_jwt = Some [(''role'', JText ''service_role'')]\<rparr>"

definition service_key_env :: server_env where
  "service_key_env =
     \<lparr>session_client = Resolved (),
      get_user = Resolved \<lparr>gu_user = None, gu_error = Some ''Auth session missing!''\<rparr>,
      get_session = Resolved \<lparr>gs_session = None, gs_error = None\<rparr>,
      profile_client = Resolved (),
      rpc_transport = no_fault,
      request_session = utc_session 200\<rparr>"

text \<open>A landing of the callback page where every provider call answers with a session.\<close>

definition alice_session :: supabase_session where
  "alice_session = \<lparr>ss_access_token = ''token'', ss_user = alice_user\<rparr>"

definition landing_env :: browser_env where
  "landing_env =
     \<lparr>decodeURIComponent = (\<lambda>s. Resolved s),
      create_client = Resolved (),
      exchange_code_for_session = Resolved \<lparr>gs_session = Some alice_session, gs_error = None\<rparr>,
      lookup_session = Resolved \<lparr>gs_session = Some alice_session, gs_error = None\<rparr>\<rparr>"

text \<open>A token that names alice as its subject and carries the service role.\<close>

definition elevated_alice_ctx :: jwt_context where
  "elevated_alice_ctx = \<lparr>auth_uid = Some alice_id,
                          auth_jwt = Some [(''sub'', JText alice_text), (''role'', JText ''service_role'')]\<rparr>"

text \<open>Landing URLs of the callback page.\<close>

definition denied_url :: url where
  "denied_url = \<lparr>pathname = ''/auth/callback'',
                  search_params = [(''error'', ''access_denied''), (''error_description'', ''User denied'')]\<rparr>"

definition code_url :: url where
  "code_url = \<lparr>pathname = ''/auth/callback'', search_params = [(''code'', ''abc123'')]\<rparr>"

text \<open>
  A landing whose code was already consumed: the exchange returns an error; the lookup
  finds the session, finds none, or throws.
\<close>

definition replay_env :: "get_session_response promise \<Rightarrow> browser_env" where
  "replay_env lookup =
     \<lparr>decodeURIComponent = (\<lambda>s. Resolved s),
      create_client = Resolved (),
      exchange_code_for_session = Resolved \<lparr>gs_session = None, gs_error = Some ''invalid request''\<rparr>,
      lookup_session = lookup\<rparr>"

section \<open>Shared facts about the tables\<close>

lemma find_map_update:
  assumes "\<And>r. P r \<Longrightarrow> P (g r)"
  shows "find P (map (\<lambda>r. if P r then g r else r) xs) = map_option g (find P xs)"
  using assms by (induction xs) auto

lemma find_map_other:
  assumes "\<And>r. P r \<Longrightarrow> \<not> Q r \<and> \<not> Q (g r)"
  shows "find Q (map (\<lambda>r. if P r then g r else r) xs) = find Q xs"
  using assms by (induction xs) auto

lemma find_Some_holds: "find P xs = Some r \<Longrightarrow> P r"
  by (induction xs) (auto split: if_splits)

lemma select_profile_user_id: "select_profile db u = Some r \<Longrightarrow> user_id r = u"
  unfolding select_profile_def by (rule find_Some_holds)

section \<open>Text forms of a UUID\<close>

lemma hex_cases:
  fixes n :: nat
  assumes "n < 16"
  shows "n = 15 \<or> n = 14 \<or> n = 13 \<or> n = 12 \<or> n = 11 \<or> n = 10 \<or> n = 9 \<or> n = 8
    \<or> n = 7 \<or> n = 6 \<or> n = 5 \<or> n = 4 \<or> n = 3 \<or> n = 2 \<or> n = 1 \<or> n = 0"
  using assms by arith

lemma hex_digit_values:
  "hex_digit 0 = CHR ''0''" "hex_digit (Suc 0) = CHR ''1''" "hex_digit 2 = CHR ''2''"
  "hex_digit 3 = CHR ''3''" "hex_digit 4 = CHR ''4''" "hex_digit 5 = CHR ''5''"
  "hex_digit 6 = CHR ''6''" "hex_digit 7 = CHR ''7''" "hex_digit 8 = CHR ''8''"
  "hex_digit 9 = CHR ''9''" "hex_digit 10 = CHR ''a''" "hex_digit 11 = CHR ''b''"
  "hex_digit 12 = CHR ''c''" "hex_digit 13 = CHR ''d''" "hex_digit 14 = CHR ''e''"
  "hex_digit 15 = CHR ''f''"
  by (simp_all add: hex_digit_def)

lemma hex_value_lower:
  "hex_value CHR ''0'' = Some 0" "hex_value CHR ''1'' = Some (Suc 0)" "hex_value CHR ''2'' = Some 2"
  "hex_value CHR ''3'' = Some 3" "hex_value CHR ''4'' = Some 4" "hex_value CHR ''5'' = Some 5"
  "hex_value CHR ''6'' = Some 6" "hex_value CHR ''7'' = Some 7" "hex_value CHR ''8'' = Some 8"
  "hex_value CHR ''9'' = Some 9" "hex_value CHR ''a'' = Some 10" "hex_value CHR ''b'' = Some 11"
  "hex_value CHR ''c'' = Some 12" "hex_value CHR ''d'' = Some 13" "hex_value CHR ''e'' = Some 14"
  "hex_value CHR ''f'' = Some 15"
  by (simp_all add: hex_value_def)

lemma hex_value_hex_digit: "n < 16 \<Longrightarrow> hex_value (hex_digit n) = Some n"
  by (drule hex_cases) (elim disjE; simp add: hex_digit_values hex_value_lower)

lemma hex_digit_no_hyphen: "hex_digit n \<noteq> CHR ''-''"
proof (cases "n < 16")
  case True
  then show ?thesis by (drule_tac hex_cases) (elim disjE; simp add: hex_digit_values)
next
  case False
  then show ?thesis by (simp add: hex_digit_def)
qed

lemma hex_digit_no_brace: "hex_digit n \<noteq> CHR ''{''"
proof (cases "n < 16")
  case True
  then show ?thesis by (drule_tac hex_cases) (elim disjE; simp add: hex_digit_values)
next
  case False
  then show ?thesis by (simp add: hex_digit_def)
qed

lemma hex_value_less: "hex_value c = Some n \<Longrightarrow> n < 16"
  by (auto simp: hex_value_def split: if_splits)

lemma skip_hyphen_render:
  "skip_hyphen (render_uuid_bytes n (h # l # ds) @ r) = render_uuid_bytes n (h # l # ds) @ r"
  by (simp add: skip_hyphen_def hex_digit_no_hyphen)

lemma parse_step:
  "h < 16 \<Longrightarrow> l < 16 \<Longrightarrow>
   parse_uuid_bytes (Suc n) (hex_digit h # hex_digit l # rest) =
     (case parse_uuid_bytes n (if even n \<and> 0 < n then skip_hyphen rest else rest) of
        None \<Rightarrow> None | Some (ds, r) \<Rightarrow> Some (h # l # ds, r))"
  by (simp add: hex_value_hex_digit)

text \<open>Reading the output of a UUID gives the UUID back.\<close>

lemma parse_render_uuid_bytes:
  "length ds = 2 * Suc n \<Longrightarrow> list_all (\<lambda>d. d < 16) ds \<Longrightarrow>
   parse_uuid_bytes (Suc n) (render_uuid_bytes n ds @ r) = Some (ds, r)"
proof (induction n arbitrary: ds)
  case 0
  then obtain h l where "ds = [h, l]"
    by (cases ds; cases "tl ds") auto
  with 0 show ?case
    by (simp add: parse_step del: parse_uuid_bytes.simps(2))
next
  case (Suc n)
  then obtain h l ds' where ds: "ds = h # l # ds'"
    by (cases ds; cases "tl ds") auto
  with Suc.prems have len: "length ds' = 2 * Suc n"
    and digits: "list_all (\<lambda>d. d < 16) ds'" and h: "h < 16" and l: "l < 16"
    by simp_all
  from len obtain h' l' ds'' where ds': "ds' = h' # l' # ds''"
    by (cases ds'; cases "tl ds'") auto
  have ih: "parse_uuid_bytes (Suc n) (render_uuid_bytes n ds' @ r) = Some (ds', r)"
    by (rule Suc.IH [OF len digits])
  have skip: "skip_hyphen (render_uuid_bytes n ds' @ r) = render_uuid_bytes n ds' @ r"
    unfolding ds' by (rule skip_hyphen_render)
  have skip2: "skip_hyphen (CHR ''-'' # render_uuid_bytes n ds' @ r) = render_uuid_bytes n ds' @ r"
    by (simp add: skip_hyphen_def)
  have even: "Suc n = 12 \<or> Suc n = 10 \<or> Suc n = 8 \<or> Suc n = 6 \<Longrightarrow> even (Suc n)"
    by auto
  have render: "render_uuid_bytes (Suc n) ds @ r =
      hex_digit h # hex_digit l #
        (if Suc n = 12 \<or> Suc n = 10 \<or> Suc n = 8 \<or> Suc n = 6
         then CHR ''-'' # render_uuid_bytes n ds' @ r else render_uuid_bytes n ds' @ r)"
    unfolding ds by simp
  show ?case
  proof (cases "Suc n = 12 \<or> Suc n = 10 \<or> Suc n = 8 \<or> Suc n = 6")
    case True
    with even have "even (Suc n)" by blast
    with True render ih skip2 h l show ?thesis
      by (simp add: parse_step ds del: parse_uuid_bytes.simps(2) render_uuid_bytes.simps)
  next
    case False
    with render ih skip h l show ?thesis
      by (simp add: parse_step ds del: parse_uuid_bytes.simps(2) render_uuid_bytes.simps)
  qed
qed

lemma uuid_in_uuid_out:
  assumes "length ds = 32" and "list_all (\<lambda>d. d < 16) ds"
  shows "uuid_in (uuid_out (Uuid ds)) = Some (Uuid ds)"
proof -
  from assms(1) obtain h l ds' where ds: "ds = h # l # ds'"
    by (cases ds; cases "tl ds") auto
  have "parse_uuid_bytes (Suc 15) (render_uuid_bytes 15 ds @ []) = Some (ds, [])"
    by (rule parse_render_uuid_bytes) (use assms in simp_all)
  then have p: "parse_uuid_bytes 16 (render_uuid_bytes 15 ds) = Some (ds, [])"
    by (simp del: parse_uuid_bytes.simps(2))
  have "render_uuid_bytes 15 ds = hex_digit h # tl (render_uuid_bytes 15 ds)"
    unfolding ds by simp
  then obtain rest where r: "render_uuid_bytes 15 ds = hex_digit h # rest"
    by blast
  from p show ?thesis
    by (simp add: uuid_in_def uuid_out_def r hex_digit_no_brace del: parse_uuid_bytes.simps(2))
qed

lemma parse_uuid_bytes_digits:
  "parse_uuid_bytes n src = Some (ds, r) \<Longrightarrow> length ds = 2 * n \<and> list_all (\<lambda>d. d < 16) ds"
proof (induction n arbitrary: src ds r)
  case 0
  then show ?case by simp
next
  case (Suc n)
  then show ?case
    by (auto split: list.splits option.splits dest: hex_value_less)
qed

lemma uuid_in_digits:
  "uuid_in s = Some (Uuid ds) \<Longrightarrow> length ds = 32 \<and> list_all (\<lambda>d. d < 16) ds"
  by (auto simp: uuid_in_def split: list.splits option.splits if_splits dest: parse_uuid_bytes_digits)

lemma uuid_out_uuid_in: "uuid_in s = Some u \<Longrightarrow> uuid_in (uuid_out u) = Some u"
  by (cases u) (auto dest: uuid_in_digits intro: uuid_in_uuid_out)

text \<open>The example ids and their texts.\<close>

lemma uuid_texts:
  "uuid_in alice_text = Some alice_id"
  "uuid_in alice_upper_text = Some alice_id"
  "uuid_in bob_text = Some bob_id"
  "uuid_out alice_id = alice_text"
  "uuid_out bob_id = bob_text"
  by code_simp+

lemma ids_distinct:
  "alice_id \<noteq> bob_id" "bob_id \<noteq> alice_id" "alice_id \<noteq> carol_id" "carol_id \<noteq> alice_id"
  "bob_id \<noteq> carol_id" "carol_id \<noteq> bob_id" "alice_text \<noteq> bob_text" "alice_text \<noteq> alice_upper_text"
  by (simp_all add: alice_id_def bob_id_def carol_id_def alice_text_def bob_text_def
      alice_upper_text_def)

lemma timezone_utc_now_utc_session: "timezone_utc_now (utc_session t) = t"
  by (simp add: timezone_utc_now_def utc_session_def)

section \<open>Properties of the permission function\<close>

text \<open>
  C1: the decision of \<open>check_user_permission\<close> follows the rule order, first match winning:
  no subject gives deny; otherwise a subject equal to the resource owner gives allow;
  otherwise a subject with the service role gives allow; otherwise deny. The requested
  permission plays no part.
\<close>

theorem check_user_permission_rule_order:
  "check_user_permission ctx owner p =
     (case auth_uid ctx of
        None \<Rightarrow> False
      | Some s \<Rightarrow>
          if owner = Some s then True
          else if json_get_text (auth_jwt ctx) ''role'' = Some ''service_role'' then True
          else False)"
  by (auto simp: check_user_permission_def is_true_def sql_eq_def service_role_claim_def
        coalesce_def split: option.splits)

theorem check_user_permission_rule_order_witness:
  "check_user_permission alice_ctx (Some alice_id) (Some ''read'') = True
   \<and> check_user_permission alice_ctx (Some bob_id) (Some ''read'') = False
   \<and> check_user_permission elevated_alice_ctx (Some bob_id) (Some ''read'') = True
   \<and> check_user_permission service_key_ctx (Some bob_id) (Some ''read'') = False"
  using check_user_permission_rule_order [of alice_ctx "Some alice_id" "Some ''read''"]
    check_user_permission_rule_order [of alice_ctx "Some bob_id" "Some ''read''"]
    check_user_permission_rule_order [of elevated_alice_ctx "Some bob_id" "Some ''read''"]
    check_user_permission_rule_order [of service_key_ctx "Some bob_id" "Some ''read''"]
  by (simp add: alice_ctx_def elevated_alice_ctx_def service_key_ctx_def json_get_text_def
        ids_distinct)

text \<open>
  C10: the decision does not depend on the requested permission, neither in the SQL
  function \<open>check_user_permission\<close> nor in the server's \<open>checkUserPermission\<close>.
\<close>

theorem permission_argument_ignored:
  "check_user_permission ctx owner p1 = check_user_permission ctx owner p2
   \<and> checkUserPermission env db userId q1 = checkUserPermission env db userId q2"
  by (simp add: check_user_permission_def checkUserPermission_def)

theorem permission_argument_ignored_witness:
  "check_user_permission alice_ctx (Some alice_id) (Some ''read'')
     = check_user_permission alice_ctx (Some alice_id) (Some ''delete'')
   \<and> checkUserPermission alice_env alice_db alice_text None
     = checkUserPermission alice_env alice_db alice_text (Some ''admin'')"
  using permission_argument_ignored [of alice_ctx "Some alice_id" "Some ''read''" "Some ''delete''"
      alice_env alice_db alice_text None "Some ''admin''"]
  by simp

section \<open>Application-level check against the storage-level rules\<close>

text \<open>What \<open>get_or_create_profile\<close> returns, by the state of the two tables.\<close>

lemma get_or_create_profile_found:
  "select_profile db u = Some r \<Longrightarrow>
   get_or_create_profile ss u db =
     Inr (\<lparr>success = True, code = ''FOUND'', message = ''Profile found'', profile = Some r\<rparr>, db)"
  by (simp add: get_or_create_profile_def get_or_create_profile_rest_def)

lemma get_or_create_profile_created:
  "select_profile db u = None \<Longrightarrow> select_auth_user db u = Some au \<Longrightarrow>
   get_or_create_profile ss u db =
     Inr (\<lparr>success = True, code = ''CREATED'', message = ''Profile created successfully'',
           profile = Some (new_profile_of ss u au)\<rparr>,
          db\<lparr>profiles := profiles db @ [new_profile_of ss u au]\<rparr>)"
  by (simp add: get_or_create_profile_def get_or_create_profile_rest_def insert_profile_def
        new_profile_of_def)

lemma get_or_create_profile_missing:
  "select_profile db u = None \<Longrightarrow> select_auth_user db u = None \<Longrightarrow>
   get_or_create_profile ss u db =
     Inr (\<lparr>success = False, code = ''USER_NOT_FOUND'', message = ''User not found in auth.users'',
           profile = None\<rparr>, db)"
  by (simp add: get_or_create_profile_def get_or_create_profile_rest_def)

text \<open>
  The \<open>user_id\<close> of the profile the server obtains is the output text of the UUID that the
  session's user id denotes.
\<close>

lemma authenticateUser_user_id:
  assumes "getServerSession env = Some session" and "uuid_in (asu_id (as_user session)) = Some u"
  shows "map_option up_user_id (fst (authenticateUser env db)) =
     (if profile_client env = Resolved () \<and> rpc_transport env = no_fault \<and> provisionable db u
      then Some (uuid_out u) else None)"
proof -
  from assms(2) have nonempty: "asu_id (as_user session) \<noteq> ''''"
    by (auto simp: uuid_in_def)
  show ?thesis
  proof (cases "select_profile db u")
    case None
    show ?thesis
    proof (cases "select_auth_user db u")
      case None
      with \<open>select_profile db u = None\<close> assms nonempty show ?thesis
        by (simp add: authenticateUser_def provisionable_def get_or_create_profile_missing
            split: promise.splits rpc_fault.splits)
    next
      case (Some au)
      with \<open>select_profile db u = None\<close> assms nonempty show ?thesis
        by (simp add: authenticateUser_def provisionable_def get_or_create_profile_created
            merge_profile_def new_profile_of_def split: promise.splits rpc_fault.splits)
    qed
  next
    case (Some r)
    with assms nonempty select_profile_user_id [OF Some] show ?thesis
      by (simp add: authenticateUser_def provisionable_def get_or_create_profile_found
          merge_profile_def split: promise.splits rpc_fault.splits)
  qed
qed

lemma authenticateUser_anonymous:
  "getServerSession env = None \<Longrightarrow> fst (authenticateUser env db) = None"
  by (simp add: authenticateUser_def)

lemma checkUserPermission_authorized:
  "authorized (fst (checkUserPermission env db userId p)) =
     (map_option up_user_id (fst (authenticateUser env db)) = Some userId)"
  by (auto simp: checkUserPermission_def split: prod.splits option.splits)

lemma checkUserPermission_same_subject:
  assumes "same_subject env ctx" and "retrieval_succeeds env db ctx"
  shows "authorized (fst (checkUserPermission env db owner_text p)) =
     (case auth_uid ctx of None \<Rightarrow> False | Some s \<Rightarrow> uuid_out s = owner_text)"
proof (cases "getServerSession env")
  case None
  with assms(1) show ?thesis
    by (simp add: same_subject_def checkUserPermission_authorized authenticateUser_anonymous
        split: option.splits)
next
  case (Some session)
  with assms(1) obtain s where uid: "auth_uid ctx = Some s"
    and parsed: "uuid_in (asu_id (as_user session)) = Some s"
    by (auto simp: same_subject_def split: option.splits)
  from assms(2) uid have "profile_client env = Resolved ()" "rpc_transport env = no_fault"
    "provisionable db s"
    by (simp_all add: retrieval_succeeds_def)
  with authenticateUser_user_id [OF Some parsed, of db]
  have "map_option up_user_id (fst (authenticateUser env db)) = Some (uuid_out s)"
    by simp
  with uid show ?thesis
    by (simp only: checkUserPermission_authorized) simp
qed

lemma check_user_permission_decision:
  "check_user_permission ctx (Some owner) q =
     (case auth_uid ctx of None \<Rightarrow> False | Some s \<Rightarrow> s = owner \<or> has_service_role ctx)"
  by (auto simp: check_user_permission_def is_true_def sql_eq_def service_role_claim_def
        coalesce_def has_service_role_def split: option.splits)

lemma profiles_policies_decision:
  "rls_allows profiles_policies cmd ctx (Some owner) =
     ((cmd \<noteq> DELETE \<and> auth_uid ctx = Some owner) \<or> has_service_role ctx)"
  by (cases cmd)
     (auto simp: profiles_policies_def policy_applies_def is_true_def sql_eq_def
        service_role_claim_def coalesce_def has_service_role_def split: option.splits)

text \<open>
  C2, as stated, fails. With the service-role key (role claim present, no subject) the
  policy \<open>service_role_full_access_profiles\<close> lets every row of \<open>profiles\<close> through, while
  \<open>check_user_permission\<close> stops at its first rule and denies, and the server finds no user
  and denies. With a token that has both a subject and the service role,
  \<open>check_user_permission\<close> allows another user's resource while the server, which has no
  rule for roles, denies it. For alice without the service role, \<open>check_user_permission\<close>
  allows her own resource while no policy lets her delete her own row, and the server,
  which compares strings, denies her own id written in upper case.
\<close>

theorem permission_layers_diverge:
  "rls_allows profiles_policies SELECT service_key_ctx (Some bob_id) = True
   \<and> check_user_permission service_key_ctx (Some bob_id) (Some ''read'') = False
   \<and> authorized (fst (checkUserPermission service_key_env alice_db bob_text (Some ''read''))) = False
   \<and> same_subject alice_env elevated_alice_ctx
   \<and> check_user_permission elevated_alice_ctx (Some bob_id) (Some ''read'') = True
   \<and> authorized (fst (checkUserPermission alice_env alice_db bob_text (Some ''read''))) = False
   \<and> check_user_permission alice_ctx (Some alice_id) (Some ''delete'') = True
   \<and> rls_allows profiles_policies DELETE alice_ctx (Some alice_id) = False
   \<and> same_subject alice_env alice_ctx
   \<and> uuid_in alice_upper_text = Some alice_id
   \<and> authorized (fst (checkUserPermission alice_env alice_db alice_upper_text (Some ''read''))) = False"
proof -
  have key: "has_service_role service_key_ctx" "auth_uid service_key_ctx = None"
    and elevated: "has_service_role elevated_alice_ctx" "auth_uid elevated_alice_ctx = Some alice_id"
    and plain: "\<not> has_service_role alice_ctx" "auth_uid alice_ctx = Some alice_id"
    by (simp_all add: has_service_role_def json_get_text_def service_key_ctx_def
        elevated_alice_ctx_def alice_ctx_def)
  have anonymous: "getServerSession service_key_env = None"
    by (simp add: getServerSession_def service_key_env_def)
  have session: "getServerSession alice_env
      = Some \<lparr>as_user = \<lparr>asu_id = alice_text, asu_email = Some ''alice@example.com'',
                          asu_user_metadata = [(''full_name'', JText ''Alice'')]\<rparr>,
               as_access_token = ''token''\<rparr>"
    by (simp add: getServerSession_def alice_env_def alice_user_def metadata_or_empty_def
        access_token_or_empty_def)
  have same: "same_subject alice_env elevated_alice_ctx" "same_subject alice_env alice_ctx"
    by (simp_all add: same_subject_def session elevated plain uuid_texts)
  have retrieval: "retrieval_succeeds alice_env alice_db alice_ctx"
    by (simp add: retrieval_succeeds_def alice_env_def plain provisionable_def select_profile_def
        alice_db_def alice_profile_def)
  have server: "authorized (fst (checkUserPermission alice_env alice_db t p)) = (alice_text = t)" for t p
    using checkUserPermission_same_subject [OF same(2) retrieval, of t p]
    by (simp add: plain uuid_texts)
  have no_user: "authorized (fst (checkUserPermission service_key_env alice_db t p)) = False" for t p
    by (simp add: checkUserPermission_authorized authenticateUser_anonymous anonymous)
  show ?thesis
    by (simp add: profiles_policies_decision check_user_permission_decision key elevated plain
        same server no_user uuid_texts ids_distinct)
qed

text \<open>
  C2, amended. For every caller, resource owner and permission:
  the SQL function \<open>check_user_permission\<close> allows exactly when the caller has a subject id
  and that id is the owner or the token carries the service role;
  the policies of \<open>profiles\<close> let a row of that owner through for \<open>SELECT\<close>, \<open>INSERT\<close> and
  \<open>UPDATE\<close> exactly when the caller's subject id is the owner or the token carries the
  service role (a subject is not needed then), and for \<open>DELETE\<close> exactly when the token
  carries the service role;
  the server's \<open>checkUserPermission\<close>, which has no rule for roles, when it sees the same
  subject and its profile retrieval goes through, allows exactly when the owner id string
  it is given is the output text of the subject's UUID.
  Hence the three decide alike, allowing exactly when the subject is the owner, for a caller
  without the service role, a command other than \<open>DELETE\<close>, and an owner id given to the
  server in the output text form of its UUID.
\<close>

theorem permission_layers_decisions:
  "check_user_permission ctx (Some owner) q
     = (case auth_uid ctx of None \<Rightarrow> False | Some s \<Rightarrow> s = owner \<or> has_service_role ctx)
   \<and> rls_allows profiles_policies cmd ctx (Some owner)
     = ((cmd \<noteq> DELETE \<and> auth_uid ctx = Some owner) \<or> has_service_role ctx)
   \<and> (same_subject env ctx \<and> retrieval_succeeds env db ctx \<longrightarrow>
        authorized (fst (checkUserPermission env db owner_text p))
          = (case auth_uid ctx of None \<Rightarrow> False | Some s \<Rightarrow> uuid_out s = owner_text))
   \<and> (same_subject env ctx \<and> retrieval_succeeds env db ctx \<and> \<not> has_service_role ctx
        \<and> cmd \<noteq> DELETE \<and> uuid_in owner_text = Some owner \<and> uuid_out owner = owner_text \<longrightarrow>
        authorized (fst (checkUserPermission env db owner_text p)) = (auth_uid ctx = Some owner)
        \<and> check_user_permission ctx (Some owner) q = (auth_uid ctx = Some owner)
        \<and> rls_allows profiles_policies cmd ctx (Some owner) = (auth_uid ctx = Some owner))"
proof -
  have server: "authorized (fst (checkUserPermission env db owner_text p))
      = (case auth_uid ctx of None \<Rightarrow> False | Some s \<Rightarrow> uuid_out s = owner_text)"
    if "same_subject env ctx" and "retrieval_succeeds env db ctx"
    using that by (rule checkUserPermission_same_subject)
  have text_eq: "(uuid_out s = owner_text) = (s = owner)"
    if same: "same_subject env ctx" and uid: "auth_uid ctx = Some s"
      and parsed: "uuid_in owner_text = Some owner" and canonical: "uuid_out owner = owner_text"
    for s
  proof
    assume out: "uuid_out s = owner_text"
    from same uid obtain sid where "uuid_in sid = Some s"
      by (auto simp: same_subject_def split: option.splits)
    then have "uuid_in (uuid_out s) = Some s"
      by (rule uuid_out_uuid_in)
    with out parsed show "s = owner" by simp
  next
    assume "s = owner"
    with canonical show "uuid_out s = owner_text" by simp
  qed
  have agree: "authorized (fst (checkUserPermission env db owner_text p)) = (auth_uid ctx = Some owner)"
    if "same_subject env ctx" and "retrieval_succeeds env db ctx"
      and "uuid_in owner_text = Some owner" and "uuid_out owner = owner_text"
  proof (cases "auth_uid ctx")
    case None
    with server [OF that(1,2)] show ?thesis by simp
  next
    case (Some s)
    with server [OF that(1,2)] text_eq [OF that(1) Some that(3,4)] show ?thesis by simp
  qed
  show ?thesis
    using server agree
    by (auto simp: check_user_permission_decision profiles_policies_decision split: option.splits)
qed

theorem permission_layers_decisions_witness:
  "same_subject alice_env alice_ctx
   \<and> retrieval_succeeds alice_env alice_db alice_ctx
   \<and> \<not> has_service_role alice_ctx
   \<and> uuid_in alice_text = Some alice_id \<and> uuid_out alice_id = alice_text
   \<and> uuid_in bob_text = Some bob_id \<and> uuid_out bob_id = bob_text
   \<and> authorized (fst (checkUserPermission alice_env alice_db alice_text (Some ''read'')))
   \<and> check_user_permission alice_ctx (Some alice_id) (Some ''read'')
   \<and> rls_allows profiles_policies UPDATE alice_ctx (Some alice_id)
   \<and> \<not> authorized (fst (checkUserPermission alice_env alice_db bob_text (Some ''read'')))
   \<and> \<not> check_user_permission alice_ctx (Some bob_id) (Some ''read'')
   \<and> \<not> rls_allows profiles_policies UPDATE alice_ctx (Some bob_id)
   \<and> \<not> rls_allows profiles_policies DELETE alice_ctx (Some alice_id)
   \<and> rls_allows profiles_policies DELETE service_key_ctx (Some alice_id)"
proof -
  have plain: "\<not> has_service_role alice_ctx" and uid: "auth_uid alice_ctx = Some alice_id"
    and key: "has_service_role service_key_ctx"
    by (simp_all add: has_service_role_def json_get_text_def alice_ctx_def service_key_ctx_def)
  have same: "same_subject alice_env alice_ctx"
    by (simp add: same_subject_def getServerSession_def alice_env_def alice_user_def uid uuid_texts)
  have retrieval: "retrieval_succeeds alice_env alice_db alice_ctx"
    by (simp add: retrieval_succeeds_def alice_env_def uid provisionable_def select_profile_def
        alice_db_def alice_profile_def)
  have cmd: "UPDATE \<noteq> DELETE" by simp
  from permission_layers_decisions [where ctx = alice_ctx and env = alice_env and db = alice_db
      and owner = alice_id and owner_text = alice_text and cmd = UPDATE
      and p = "Some ''read''" and q = "Some ''read''"]
    permission_layers_decisions [where ctx = alice_ctx and env = alice_env and db = alice_db
      and owner = bob_id and owner_text = bob_text and cmd = UPDATE
      and p = "Some ''read''" and q = "Some ''read''"]
    permission_layers_decisions [where ctx = alice_ctx and env = alice_env and db = alice_db
      and owner = alice_id and owner_text = alice_text and cmd = DELETE
      and p = "Some ''read''" and q = "Some ''read''"]
    permission_layers_decisions [where ctx = service_key_ctx and env = alice_env and db = alice_db
      and owner = alice_id and owner_text = alice_text and cmd = DELETE
      and p = "Some ''read''" and q = "Some ''read''"]
    plain uid key same retrieval
  show ?thesis
    by (simp add: uuid_texts ids_distinct)
qed

section \<open>The OAuth callback\<close>

lemma handleAuthCallback_terminal: "status (handleAuthCallback props env u) \<noteq> loading"
  by (simp add: handleAuthCallback_def fail_with_def Let_def split: promise.splits option.splits)

lemma handleAuthCallback_address_bar:
  "address_bar (handleAuthCallback props env u) = location (obtain_session env u)"
  by (simp add: handleAuthCallback_def fail_with_def Let_def split: promise.splits option.splits)

lemma exchange_branch_location: "location (exchange_branch env u) = replaceState u"
  by (simp add: exchange_branch_def fallback_lookup_def split: promise.splits option.splits)

lemma direct_lookup_location: "location (direct_lookup env u) = u"
  by (simp add: direct_lookup_def split: promise.splits option.splits)

lemma obtain_session_exchange:
  "code_exchange_branch env u \<Longrightarrow> obtain_session env u = exchange_branch env u"
  by (auto simp: code_exchange_branch_def error_parameter_branch_def obtain_session_def Let_def
        split: if_splits promise.splits)

lemma obtain_session_location_other:
  "\<not> code_exchange_branch env u \<Longrightarrow> location (obtain_session env u) = u"
  by (auto simp: code_exchange_branch_def error_parameter_branch_def obtain_session_def Let_def
        direct_lookup_location split: if_splits promise.splits)

text \<open>
  C3, as stated, fails in the error-parameter branch: the landing
  \<open>?error=access_denied&error_description=User denied\<close> ends in the failed state with both
  parameters still in the address bar, and no provider call made.
\<close>

theorem error_branch_keeps_parameters:
  "status (handleAuthCallback default_props landing_env denied_url) = failed
   \<and> shown_message (handleAuthCallback default_props landing_env denied_url) = ''User denied''
   \<and> provider_calls (handleAuthCallback default_props landing_env denied_url) = []
   \<and> search_get (address_bar (handleAuthCallback default_props landing_env denied_url)) ''error''
       = Some ''access_denied''
   \<and> search_get (address_bar (handleAuthCallback default_props landing_env denied_url)) ''error_description''
       = Some ''User denied''"
  by (simp add: handleAuthCallback_def obtain_session_def fail_with_def Let_def js_or_def
        truthy_def search_get_def denied_url_def landing_env_def)

text \<open>
  C3, amended: the callback always ends in a terminal state. When it got there through the
  code-exchange branch (no error parameter, a code, the client built), whatever the exchange
  and the fallback lookup did, the address bar holds the path alone: \<open>code\<close>, \<open>error\<close> and
  \<open>error_description\<close> are gone, by \<open>history.replaceState\<close>, which does not navigate. In the
  error-parameter branch and in the direct-lookup branch the URL is left as it was.
\<close>

theorem callback_url_after_terminal_state:
  "status (handleAuthCallback props env u) \<noteq> loading
   \<and> address_bar (handleAuthCallback props env u)
       = (if code_exchange_branch env u then \<lparr>pathname = pathname u, search_params = []\<rparr> else u)
   \<and> (if code_exchange_branch env u
       then search_get (address_bar (handleAuthCallback props env u)) ''code'' = None
          \<and> search_get (address_bar (handleAuthCallback props env u)) ''error'' = None
          \<and> search_get (address_bar (handleAuthCallback props env u)) ''error_description'' = None
       else True)"
proof (cases "code_exchange_branch env u")
  case True
  then have "address_bar (handleAuthCallback props env u) = replaceState u"
    by (simp add: handleAuthCallback_address_bar obtain_session_exchange exchange_branch_location)
  with True handleAuthCallback_terminal [of props env u] show ?thesis
    by (simp add: replaceState_def search_get_def)
next
  case False
  then have "address_bar (handleAuthCallback props env u) = u"
    by (simp add: handleAuthCallback_address_bar obtain_session_location_other)
  with False handleAuthCallback_terminal [of props env u] show ?thesis
    by simp
qed

theorem callback_url_after_terminal_state_witness:
  "code_exchange_branch landing_env code_url
   \<and> status (handleAuthCallback default_props landing_env code_url) = succeeded
   \<and> address_bar (handleAuthCallback default_props landing_env code_url)
       = \<lparr>pathname = ''/auth/callback'', search_params = []\<rparr>
   \<and> search_get (address_bar (handleAuthCallback default_props landing_env code_url)) ''code'' = None
   \<and> code_exchange_branch (replay_env (Rejected ''Failed to fetch'')) code_url
   \<and> status (handleAuthCallback default_props (replay_env (Rejected ''Failed to fetch'')) code_url) = failed
   \<and> address_bar (handleAuthCallback default_props (replay_env (Rejected ''Failed to fetch'')) code_url)
       = \<lparr>pathname = ''/auth/callback'', search_params = []\<rparr>"
proof -
  have b1: "code_exchange_branch landing_env code_url"
    by (simp add: code_exchange_branch_def error_parameter_branch_def js_or_def truthy_def
        search_get_def code_url_def landing_env_def)
  have b2: "code_exchange_branch (replay_env (Rejected ''Failed to fetch'')) code_url"
    by (simp add: code_exchange_branch_def error_parameter_branch_def js_or_def truthy_def
        search_get_def code_url_def replay_env_def)
  have pn: "pathname code_url = ''/auth/callback''"
    by (simp add: code_url_def)
  have s1: "status (handleAuthCallback default_props landing_env code_url) = succeeded"
    by (simp add: handleAuthCallback_def obtain_session_def exchange_branch_def Let_def js_or_def
        truthy_def search_get_def code_url_def landing_env_def)
  have s2: "status (handleAuthCallback default_props (replay_env (Rejected ''Failed to fetch'')) code_url) = failed"
    by (simp add: handleAuthCallback_def obtain_session_def exchange_branch_def
        fallback_lookup_def fail_with_def Let_def js_or_def truthy_def search_get_def
        code_url_def replay_env_def)
  from callback_url_after_terminal_state [of default_props landing_env code_url]
    callback_url_after_terminal_state [of default_props "replay_env (Rejected ''Failed to fetch'')" code_url]
    b1 b2 s1 s2 pn
  show ?thesis by (simp add: search_get_def)
qed

lemma obtain_session_fallback:
  "code_exchange_branch env u \<Longrightarrow> exchange_failed env \<Longrightarrow>
   obtain_session env u = fallback_lookup env u"
  by (auto simp: obtain_session_exchange exchange_branch_def exchange_failed_def
        split: promise.splits option.splits)

lemma msg_no_session_not_empty: "msg_no_session \<noteq> []"
  by (simp add: msg_no_session_def)

text \<open>
  C4, as stated, fails when the fallback lookup itself throws: for the landing \<open>?code=abc123\<close>
  whose exchange returns an error, a lookup that throws "Failed to fetch" obtains no
  session, and the page fails with that message, not with the no-session message.
\<close>

theorem fallback_lookup_throw_message:
  "code_exchange_branch (replay_env (Rejected ''Failed to fetch'')) code_url
   \<and> exchange_failed (replay_env (Rejected ''Failed to fetch''))
   \<and> provider_calls (handleAuthCallback default_props (replay_env (Rejected ''Failed to fetch'')) code_url)
       = [ExchangeCodeForSession, GetSession]
   \<and> status (handleAuthCallback default_props (replay_env (Rejected ''Failed to fetch'')) code_url) = failed
   \<and> obtained_session (handleAuthCallback default_props (replay_env (Rejected ''Failed to fetch'')) code_url) = None
   \<and> shown_message (handleAuthCallback default_props (replay_env (Rejected ''Failed to fetch'')) code_url)
       = ''Failed to fetch''
   \<and> shown_message (handleAuthCallback default_props (replay_env (Rejected ''Failed to fetch'')) code_url)
       \<noteq> msg_no_session"
  by (simp add: handleAuthCallback_def obtain_session_def exchange_branch_def
        fallback_lookup_def fail_with_def Let_def js_or_def truthy_def search_get_def
        code_url_def replay_env_def code_exchange_branch_def error_parameter_branch_def
        exchange_failed_def msg_no_session_def)

text \<open>
  C4, amended: for a landing with a code whose exchange fails, by a returned error or by a
  throw, the callback makes exactly one exchange and then one session lookup. If the lookup
  returns a session the page succeeds with that session; if the lookup returns none (with
  or without an error of its own) the page fails with the no-session message; if the lookup
  throws, the page fails with the message of the thrown error (the generic failure message
  when that is empty).
\<close>

theorem exchange_failure_falls_back:
  assumes "code_exchange_branch env u" and "exchange_failed env"
  shows "provider_calls (handleAuthCallback props env u) = [ExchangeCodeForSession, GetSession]
       \<and> (case lookup_session env of
            Resolved r \<Rightarrow>
              (case gs_session r of
                 Some session \<Rightarrow>
                   status (handleAuthCallback props env u) = succeeded
                   \<and> obtained_session (handleAuthCallback props env u) = Some session
               | None \<Rightarrow>
                   status (handleAuthCallback props env u) = failed
                   \<and> shown_message (handleAuthCallback props env u) = msg_no_session)
          | Rejected e \<Rightarrow>
              status (handleAuthCallback props env u) = failed
              \<and> shown_message (handleAuthCallback props env u)
                  = (if e = '''' then msg_auth_failed else e))"
  using obtain_session_fallback [OF assms]
  by (simp add: handleAuthCallback_def fallback_lookup_def fail_with_def Let_def
        msg_no_session_not_empty split: promise.splits option.splits)

theorem exchange_failure_falls_back_witness:
  "code_exchange_branch (replay_env (Resolved \<lparr>gs_session = Some alice_session, gs_error = None\<rparr>)) code_url
   \<and> exchange_failed (replay_env (Resolved \<lparr>gs_session = Some alice_session, gs_error = None\<rparr>))
   \<and> status (handleAuthCallback default_props
        (replay_env (Resolved \<lparr>gs_session = Some alice_session, gs_error = None\<rparr>)) code_url) = succeeded
   \<and> obtained_session (handleAuthCallback default_props
        (replay_env (Resolved \<lparr>gs_session = Some alice_session, gs_error = None\<rparr>)) code_url) = Some alice_session
   \<and> code_exchange_branch (replay_env (Resolved \<lparr>gs_session = None, gs_error = None\<rparr>)) code_url
   \<and> exchange_failed (replay_env (Resolved \<lparr>gs_session = None, gs_error = None\<rparr>))
   \<and> status (handleAuthCallback default_props
        (replay_env (Resolved \<lparr>gs_session = None, gs_error = None\<rparr>)) code_url) = failed
   \<and> shown_message (handleAuthCallback default_props
        (replay_env (Resolved \<lparr>gs_session = None, gs_error = None\<rparr>)) code_url) = msg_no_session"
proof -
  have branch: "code_exchange_branch (replay_env l) code_url" for l
    by (simp add: code_exchange_branch_def error_parameter_branch_def js_or_def truthy_def
        search_get_def code_url_def replay_env_def)
  have failed: "exchange_failed (replay_env l)" for l
    by (simp add: exchange_failed_def replay_env_def)
  have lookup: "lookup_session (replay_env l) = l" for l
    by (simp add: replay_env_def)
  from exchange_failure_falls_back [OF branch failed, of default_props
      "Resolved \<lparr>gs_session = Some alice_session, gs_error = None\<rparr>"]
    exchange_failure_falls_back [OF branch failed, of default_props
      "Resolved \<lparr>gs_session = None, gs_error = None\<rparr>"]
    branch failed
  show ?thesis by (simp add: lookup)
qed

section \<open>Profile updates\<close>


lemma select_profile_update_profiles_same:
  assumes "\<And>r. user_id (set_clause r) = user_id r"
  shows "select_profile (update_profiles ss (\<lambda>r. user_id r = u) set_clause db) u
       = map_option (\<lambda>r. handle_updated_at ss (set_clause r)) (select_profile db u)"
proof -
  have "find (\<lambda>r. user_id r = u)
          (map (\<lambda>r. if user_id r = u then handle_updated_at ss (set_clause r) else r) (profiles db))
        = map_option (\<lambda>r. handle_updated_at ss (set_clause r)) (find (\<lambda>r. user_id r = u) (profiles db))"
    by (rule find_map_update) (simp add: handle_updated_at_def assms)
  then show ?thesis
    by (simp add: select_profile_def update_profiles_def)
qed

lemma select_profile_update_profiles_other:
  assumes "\<And>r. user_id (set_clause r) = user_id r" and "u' \<noteq> u"
  shows "select_profile (update_profiles ss (\<lambda>r. user_id r = u) set_clause db) u'
       = select_profile db u'"
proof -
  have "find (\<lambda>r. user_id r = u')
          (map (\<lambda>r. if user_id r = u then handle_updated_at ss (set_clause r) else r) (profiles db))
        = find (\<lambda>r. user_id r = u') (profiles db)"
    by (rule find_map_other) (use assms in \<open>simp add: handle_updated_at_def\<close>)
  then show ?thesis
    by (simp add: select_profile_def update_profiles_def)
qed


text \<open>
  C5, as stated, fails on an empty display name: the trigger keeps the stored value only
  when the upstream metadata has no \<open>full_name\<close> (or JSON null); an upstream \<open>full_name\<close>
  that is the empty string replaces the stored "Alice".
\<close>

theorem sync_empty_name_overwrites:
  "select_profile alice_db alice_id = Some alice_profile
   \<and> full_name alice_profile = Some ''Alice''
   \<and> sync_profile_from_auth_users (utc_session 300) TG_UPDATE
        \<lparr>au_id = alice_id, au_email = Some ''alice@example.com'',
          raw_user_meta_data = Some [(''full_name'', JText '''')]\<rparr> alice_db
      = Inr (Some \<lparr>au_id = alice_id, au_email = Some ''alice@example.com'',
                    raw_user_meta_data = Some [(''full_name'', JText '''')]\<rparr>,
             alice_db\<lparr>profiles := [alice_profile\<lparr>full_name := Some '''', updated_at := 300\<rparr>]\<rparr>)"
  by (simp add: sync_profile_from_auth_users_def update_profiles_def sync_set_clause_def
        handle_updated_at_def coalesce_def json_get_text_def alice_db_def alice_profile_def
        select_profile_def timezone_utc_now_utc_session)

text \<open>
  C5, amended: on an update notification the trigger raises nothing and touches only the
  profile of the notified user. In that profile the email becomes the upstream email
  (also when that is NULL); display name and avatar become the upstream value when the
  upstream metadata carries one that is not null, the empty string included, and are kept
  when the key is missing or null; \<open>user_id\<close> and \<open>created_at\<close> are kept; \<open>updated_at\<close>
  becomes what the column stores for \<open>TIMEZONE('utc', NOW())\<close>, the start of the transaction
  less the UTC offset of the session's time zone.
\<close>

theorem sync_update_overwrites:
  "\<exists>db'. sync_profile_from_auth_users ss TG_UPDATE new db = Inr (Some new, db')
     \<and> auth_users db' = auth_users db \<and> audit_logs db' = audit_logs db
     \<and> select_profile db' (au_id new)
        = map_option
            (\<lambda>r. \<lparr>user_id = user_id r,
                  email = au_email new,
                  full_name = (case json_get_text (raw_user_meta_data new) ''full_name'' of
                                 Some v \<Rightarrow> Some v | None \<Rightarrow> full_name r),
                  avatar_url = (case json_get_text (raw_user_meta_data new) ''avatar_url'' of
                                  Some v \<Rightarrow> Some v | None \<Rightarrow> avatar_url r),
                  created_at = created_at r,
                  updated_at = transaction_start ss - time_zone_offset ss\<rparr>)
            (select_profile db (au_id new))
     \<and> (\<forall>u. u \<noteq> au_id new \<longrightarrow> select_profile db' u = select_profile db u)"
proof -
  let ?db' = "update_profiles ss (\<lambda>r. user_id r = au_id new) (sync_set_clause ss new) db"
  have keep: "\<And>r. user_id (sync_set_clause ss new r) = user_id r"
    by (simp add: sync_set_clause_def)
  have run: "sync_profile_from_auth_users ss TG_UPDATE new db = Inr (Some new, ?db')"
    by (simp add: sync_profile_from_auth_users_def)
  have frame: "auth_users ?db' = auth_users db" "audit_logs ?db' = audit_logs db"
    by (simp_all add: update_profiles_def)
  have row: "handle_updated_at ss (sync_set_clause ss new r)
      = \<lparr>user_id = user_id r,
         email = au_email new,
         full_name = (case json_get_text (raw_user_meta_data new) ''full_name'' of
                        Some v \<Rightarrow> Some v | None \<Rightarrow> full_name r),
         avatar_url = (case json_get_text (raw_user_meta_data new) ''avatar_url'' of
                         Some v \<Rightarrow> Some v | None \<Rightarrow> avatar_url r),
         created_at = created_at r,
         updated_at = transaction_start ss - time_zone_offset ss\<rparr>" for r
    by (simp add: handle_updated_at_def sync_set_clause_def coalesce_def timezone_utc_now_def)
  have same: "select_profile ?db' (au_id new)
      = map_option (\<lambda>r. handle_updated_at ss (sync_set_clause ss new r)) (select_profile db (au_id new))"
    by (rule select_profile_update_profiles_same) (rule keep)
  have other: "\<forall>u. u \<noteq> au_id new \<longrightarrow> select_profile ?db' u = select_profile db u"
    by (simp add: select_profile_update_profiles_other keep)
  from run frame same other show ?thesis
    by (simp add: row)
qed

text \<open>
  The witness runs the trigger in a session eight hours east of UTC (times in hours here):
  the transaction starts at 300 and the row is stamped 292.
\<close>

theorem sync_update_overwrites_witness:
  "\<exists>db'. sync_profile_from_auth_users \<lparr>transaction_start = 300, time_zone_offset = 8\<rparr> TG_UPDATE
            \<lparr>au_id = alice_id, au_email = Some ''alice@new.example'', raw_user_meta_data = None\<rparr> alice_db
          = Inr (Some \<lparr>au_id = alice_id, au_email = Some ''alice@new.example'', raw_user_meta_data = None\<rparr>, db')
     \<and> select_profile db' alice_id
        = Some \<lparr>user_id = alice_id, email = Some ''alice@new.example'', full_name = Some ''Alice'',
                avatar_url = Some '''', created_at = 100, updated_at = 292\<rparr>"
  using sync_update_overwrites [of "\<lparr>transaction_start = 300, time_zone_offset = 8\<rparr>"
      "\<lparr>au_id = alice_id, au_email = Some ''alice@new.example'', raw_user_meta_data = None\<rparr>" alice_db]
  by (auto simp: json_get_text_def select_profile_def alice_db_def alice_profile_def)




section \<open>The session resolver\<close>

text \<open>
  C6, as stated, fails when the secondary fetch throws: \<open>getSession()\<close> is awaited inside the
  same \<open>try\<close> as the verification, so with alice verified and \<open>getSession()\<close> throwing, the
  \<open>catch\<close> returns null.
\<close>

theorem session_fetch_throw_invalidates:
  "verified_user (alice_env\<lparr>get_session := Rejected ''fetch failed''\<rparr>) = Some alice_user
   \<and> getServerSession (alice_env\<lparr>get_session := Rejected ''fetch failed''\<rparr>) = None"
  by (simp add: verified_user_def getServerSession_def alice_env_def)

text \<open>
  C6, amended: \<open>getServerSession\<close> returns null whenever identity verification fails, for
  whatever reason. When verification succeeds and the secondary \<open>getSession()\<close> returns,
  be it with an error or without a session, the result is a session carrying the verified
  identity, with the access token of the fetched session or the empty string. When
  verification succeeds and \<open>getSession()\<close> throws, the result is null.
\<close>

theorem getServerSession_cases:
  "getServerSession env =
     (case verified_user env of
        None \<Rightarrow> None
      | Some user \<Rightarrow>
          (case get_session env of
             Rejected e \<Rightarrow> None
           | Resolved sr \<Rightarrow>
               Some \<lparr>as_user = \<lparr>asu_id = su_id user, asu_email = su_email user,
                                asu_user_metadata = (case su_user_metadata user of None \<Rightarrow> [] | Some m \<Rightarrow> m)\<rparr>,
                     as_access_token = (case gs_session sr of None \<Rightarrow> '''' | Some s \<Rightarrow> ss_access_token s)\<rparr>))"
  by (simp add: getServerSession_def verified_user_def metadata_or_empty_def
        access_token_or_empty_def split: promise.splits option.splits)

theorem getServerSession_cases_witness:
  "verified_user service_key_env = None
   \<and> getServerSession service_key_env = None
   \<and> verified_user (alice_env\<lparr>get_session := Resolved \<lparr>gs_session = None, gs_error = Some ''timeout''\<rparr>\<rparr>)
       = Some alice_user
   \<and> getServerSession (alice_env\<lparr>get_session := Resolved \<lparr>gs_session = None, gs_error = Some ''timeout''\<rparr>\<rparr>)
       = Some \<lparr>as_user = \<lparr>asu_id = alice_text, asu_email = Some ''alice@example.com'',
                          asu_user_metadata = [(''full_name'', JText ''Alice'')]\<rparr>,
               as_access_token = ''''\<rparr>"
proof -
  have v1: "verified_user service_key_env = None"
    by (simp add: verified_user_def service_key_env_def)
  have v2: "verified_user (alice_env\<lparr>get_session := Resolved \<lparr>gs_session = None, gs_error = Some ''timeout''\<rparr>\<rparr>)
      = Some alice_user"
    by (simp add: verified_user_def alice_env_def)
  from getServerSession_cases [of service_key_env]
    getServerSession_cases [of "alice_env\<lparr>get_session := Resolved \<lparr>gs_session = None, gs_error = Some ''timeout''\<rparr>\<rparr>"]
    v1 v2
  show ?thesis
    by (simp add: alice_user_def)
qed

section \<open>The audit recorder\<close>

text \<open>
  C7, as stated, fails: \<open>log_audit_event\<close> has no exception handler, so a failing insert is
  raised to the caller. Here the token names a subject that has no row in \<open>auth.users\<close> any
  more, and the foreign key of \<open>audit_logs.user_id\<close> rejects the row.
\<close>

theorem log_audit_event_raises:
  "log_audit_event \<lparr>auth_uid = Some carol_id, auth_jwt = Some [(''role'', JText ''authenticated'')]\<rparr>
      (utc_session 300) event_id (Some ''profile.update'') (Some ''profiles'') (Some ''carol'') None None alice_db
     = Inl (foreign_key_violation ''audit_logs_user_id_fkey'')
   \<and> log_audit_event alice_ctx (utc_session 300) event_id None None None None None alice_db
     = Inl (not_null_violation ''action'')"
  by (simp add: log_audit_event_def audit_actor_known_def select_auth_user_def alice_db_def
        alice_row_def bob_row_def ids_distinct)

text \<open>
  C7, amended: \<open>log_audit_event\<close> returns normally, having appended exactly one row with the
  caller as actor, when the insert is accepted: the action is not NULL, the generated id
  is unused, and the caller is anonymous or has a row in \<open>auth.users\<close>. In every other case
  the constraint violation is raised to the caller and nothing is recorded.
\<close>

theorem log_audit_event_outcome:
  "log_audit_event ctx ss new_id p_action p_table_name p_record_id p_old_values p_new_values db =
     (case p_action of
        None \<Rightarrow> Inl (not_null_violation ''action'')
      | Some action \<Rightarrow>
          if find (\<lambda>l. al_id l = new_id) (audit_logs db) = None \<and> audit_actor_known ctx db
          then Inr \<lparr>profiles = profiles db, auth_users = auth_users db,
                    audit_logs = audit_logs db @
                      [\<lparr>al_id = new_id, al_user_id = auth_uid ctx, al_action = action,
                        al_table_name = p_table_name, al_record_id = p_record_id,
                        al_old_values = p_old_values, al_new_values = p_new_values,
                        al_ip_address = None, al_user_agent = None,
                        al_created_at = transaction_start ss - time_zone_offset ss\<rparr>]\<rparr>
          else if find (\<lambda>l. al_id l = new_id) (audit_logs db) = None
          then Inl (foreign_key_violation ''audit_logs_user_id_fkey'')
          else Inl (unique_violation ''audit_logs_pkey''))"
  by (cases db) (simp add: log_audit_event_def timezone_utc_now_def split: option.splits)

theorem log_audit_event_outcome_witness:
  "log_audit_event alice_ctx (utc_session 300) event_id (Some ''profile.update'') (Some ''profiles'')
      (Some ''alice'') None None alice_db
     = Inr \<lparr>profiles = [alice_profile], auth_users = [alice_row, bob_row],
            audit_logs = [\<lparr>al_id = event_id, al_user_id = Some alice_id, al_action = ''profile.update'',
                           al_table_name = Some ''profiles'', al_record_id = Some ''alice'',
                           al_old_values = None, al_new_values = None,
                           al_ip_address = None, al_user_agent = None, al_created_at = 300\<rparr>]\<rparr>"
  using log_audit_event_outcome [of alice_ctx "utc_session 300" event_id "Some ''profile.update''"
      "Some ''profiles''" "Some ''alice''" None None alice_db]
  by (simp add: audit_actor_known_def select_auth_user_def alice_db_def alice_ctx_def alice_row_def
        utc_session_def)

section \<open>Concurrent first calls of get-or-create\<close>

text \<open>
  C9 on the code: two callers run \<open>get_or_create_profile\<close> for alice, who has no profile.
  Both run the first statement, the \<open>SELECT\<close>, before either has inserted, so both find
  nothing. The first caller's \<open>INSERT\<close> goes through and it returns \<open>CREATED\<close>. The second
  caller's \<open>INSERT\<close> then meets the row of the first and raises \<open>unique_violation\<close>: one row
  results, but the losing caller gets an error, not the winner's row; had it started after
  the winner finished, it would have returned \<open>FOUND\<close>. The insert of the
  trigger \<open>sync_profile_from_auth_users\<close>, which has \<open>ON CONFLICT (user_id) DO NOTHING\<close>,
  absorbs the same conflict.
\<close>

theorem concurrent_get_or_create_loser_raises:
  "select_profile fresh_db alice_id = None
   \<and> get_or_create_profile_rest (select_profile fresh_db alice_id) (utc_session 100) alice_id fresh_db
      = Inr (\<lparr>success = True, code = ''CREATED'', message = ''Profile created successfully'',
              profile = Some alice_profile\<rparr>, alice_db)
   \<and> get_or_create_profile_rest (select_profile fresh_db alice_id) (utc_session 101) alice_id alice_db
      = Inl (unique_violation ''profiles_pkey'')
   \<and> get_or_create_profile (utc_session 101) alice_id alice_db
      = Inr (\<lparr>success = True, code = ''FOUND'', message = ''Profile found'',
              profile = Some alice_profile\<rparr>, alice_db)
   \<and> length (filter (\<lambda>r. user_id r = alice_id) (profiles alice_db)) = 1
   \<and> insert_profile_do_nothing (new_profile_of (utc_session 101) alice_id alice_row) alice_db = Inr alice_db"
  by (simp add: get_or_create_profile_def get_or_create_profile_rest_def insert_profile_def
        insert_profile_do_nothing_def
        select_profile_def select_auth_user_def new_profile_of_def coalesce_def json_get_text_def
        fresh_db_def alice_db_def alice_profile_def alice_row_def bob_row_def
        timezone_utc_now_utc_session ids_distinct)

end
